theory Spec2Isabelle
  imports Complex_Main "HOL-Library.Word"
begin

section \<open>Data model of SceneManager.cpp\<close>

text \<open>
  The scene manager keeps two registries (textures and materials), talks to a shader
  manager through named uniform setters, to a mesh library through load and draw calls
  and to OpenGL for texture objects. The C++ \<open>float\<close> is idealised as \<open>real\<close>: the
  statements below are about which values are passed where, not about rounding.
  \<open>GLuint\<close> is a 32-bit word; the \<open>int\<close> counter and indices, which stay far from the
  32-bit limits, are integers.
\<close>

type_synonym GLuint = "32 word"

datatype vec2 = vec2 real real

datatype vec3 = vec3 (vx: real) (vy: real) (vz: real)

datatype vec4 = vec4 (x4: real) (y4: real) (z4: real) (w4: real)

text \<open>A \<open>glm::mat4\<close> is column-major: four column vectors.\<close>

datatype mat4 = mat4 (col0: vec4) (col1: vec4) (col2: vec4) (col3: vec4)

text \<open>
  Modelled from the spec: \<open>SceneManager.h\<close>, which declares \<open>TEXTURE_INFO\<close>,
  \<open>OBJECT_MATERIAL\<close> and the members of \<open>SceneManager\<close>, is not among the sources. The
  fields are those of the specification's TextureEntry and MaterialPreset, under the
  names \<open>SceneManager.cpp\<close> uses for them; \<open>ID\<close> is a \<open>GLuint\<close> since its address is passed
  to \<open>glGenTextures\<close>.
\<close>

record TEXTURE_INFO =
  ID :: GLuint
  tag :: string

record OBJECT_MATERIAL =
  ambientStrength :: real
  ambientColor :: vec3
  diffuseColor :: vec3
  specularColor :: vec3
  shininess :: real
  tag :: string

text \<open>
  Modelled from the spec: the shader manager is an external collaborator that exposes
  setters for uniforms by name. The model keeps the setter calls it has received,
  oldest first; the value a uniform currently holds is the one of the latest call under
  its name.
\<close>

datatype uniform_value =
    Mat4Value mat4
  | IntValue int
  | BoolValue bool
  | FloatValue real
  | Vec2Value vec2
  | Vec3Value vec3
  | Vec4Value vec4
  | Sampler2DValue int

record ShaderManager =
  uniforms :: "(string \<times> uniform_value) list"

definition setValue :: "string \<Rightarrow> uniform_value \<Rightarrow> ShaderManager \<Rightarrow> ShaderManager" where
  "setValue name v sh = sh\<lparr>uniforms := uniforms sh @ [(name, v)]\<rparr>"

definition uniform :: "ShaderManager \<Rightarrow> string \<Rightarrow> uniform_value option" where
  "uniform sh name = map_of (rev (uniforms sh)) name"

text \<open>
  Modelled from the spec: the mesh library is an external collaborator with one load
  and one draw call per primitive. The model keeps the calls made on it, oldest first.
\<close>

datatype mesh =
  PlaneMesh | SphereMesh | TorusMesh | TaperedCylinderMesh | BoxMesh | CylinderMesh | PrismMesh

datatype mesh_call = LoadMesh mesh | DrawMesh mesh

text \<open>
  Modelled from the spec: the members of \<open>SceneManager\<close>, as \<open>SceneManager.cpp\<close> uses
  them. \<open>m_textureIDs\<close> is a fixed-size array, of which the first \<open>m_loadedTextures\<close>
  elements are registered; its capacity (16 by the specification and the comments of
  the source) is the length of the list, so every capacity is covered.
  \<open>m_objectMaterials\<close> is a \<open>std::vector\<close>; \<open>m_pShaderManager\<close> is a pointer that may be
  \<open>NULL\<close>; \<open>m_basicMeshes\<close> points to the mesh library.
\<close>

record SceneManager =
  m_pShaderManager :: "ShaderManager option"
  m_basicMeshes :: "mesh_call list"
  m_textureIDs :: "TEXTURE_INFO list"
  m_loadedTextures :: int
  m_objectMaterials :: "OBJECT_MATERIAL list"

text \<open>
  What C++ leaves undefined is an error value of the model: an array access outside
  the array, and a call through a \<open>NULL\<close> pointer.
\<close>

datatype error = OutOfBounds | NullPointer

definition array_read :: "'a list \<Rightarrow> int \<Rightarrow> error + 'a" where
  "array_read xs i =
     (if 0 \<le> i \<and> i < int (length xs) then Inr (xs ! nat i) else Inl OutOfBounds)"

definition array_write :: "'a list \<Rightarrow> int \<Rightarrow> 'a \<Rightarrow> error + 'a list" where
  "array_write xs i v =
     (if 0 \<le> i \<and> i < int (length xs) then Inr (xs[nat i := v]) else Inl OutOfBounds)"

text \<open>The registered textures: the first \<open>m_loadedTextures\<close> elements of the array.\<close>

definition entries :: "SceneManager \<Rightarrow> TEXTURE_INFO list" where
  "entries s = take (nat (m_loadedTextures s)) (m_textureIDs s)"

definition texture_tags :: "SceneManager \<Rightarrow> string list" where
  "texture_tags s = map TEXTURE_INFO.tag (entries s)"

definition material_tags :: "SceneManager \<Rightarrow> string list" where
  "material_tags s = map OBJECT_MATERIAL.tag (m_objectMaterials s)"

text \<open>The counter is within the array.\<close>

definition well_formed :: "SceneManager \<Rightarrow> bool" where
  "well_formed s = (0 \<le> m_loadedTextures s \<and> m_loadedTextures s \<le> int (length (m_textureIDs s)))"

section \<open>Lookups by tag\<close>

text \<open>
  \<open>FindTextureID\<close>: the \<open>while\<close> loop over \<open>index\<close> and \<open>bFound\<close>. The stored \<open>GLuint\<close> is
  converted to the \<open>int\<close> the function returns.
\<close>

function FindTextureID_loop ::
  "SceneManager \<Rightarrow> string \<Rightarrow> int \<Rightarrow> int \<Rightarrow> bool \<Rightarrow> error + int" where
  "FindTextureID_loop s t textureID index bFound =
     (if index < m_loadedTextures s \<and> bFound = False then
        (case array_read (m_textureIDs s) index of
           Inl e \<Rightarrow> Inl e
         | Inr e \<Rightarrow>
             if TEXTURE_INFO.tag e = t
             then FindTextureID_loop s t (sint (ID e)) index True
             else FindTextureID_loop s t textureID (index + 1) bFound)
      else Inr textureID)"
  by pat_completeness auto
termination
  by (relation "measure (\<lambda>(s, t, textureID, index, bFound).
        nat (2 * (m_loadedTextures s - index)) + (if bFound then 0 else 1))") auto

definition FindTextureID :: "SceneManager \<Rightarrow> string \<Rightarrow> error + int" where
  "FindTextureID s t = FindTextureID_loop s t (- 1) 0 False"

function FindTextureSlot_loop ::
  "SceneManager \<Rightarrow> string \<Rightarrow> int \<Rightarrow> int \<Rightarrow> bool \<Rightarrow> error + int" where
  "FindTextureSlot_loop s t textureSlot index bFound =
     (if index < m_loadedTextures s \<and> bFound = False then
        (case array_read (m_textureIDs s) index of
           Inl e \<Rightarrow> Inl e
         | Inr e \<Rightarrow>
             if TEXTURE_INFO.tag e = t
             then FindTextureSlot_loop s t index index True
             else FindTextureSlot_loop s t textureSlot (index + 1) bFound)
      else Inr textureSlot)"
  by pat_completeness auto
termination
  by (relation "measure (\<lambda>(s, t, textureSlot, index, bFound).
        nat (2 * (m_loadedTextures s - index)) + (if bFound then 0 else 1))") auto

definition FindTextureSlot :: "SceneManager \<Rightarrow> string \<Rightarrow> error + int" where
  "FindTextureSlot s t = FindTextureSlot_loop s t (- 1) 0 False"

text \<open>
  \<open>FindMaterial\<close>: the loop returns its two locals, the flag and the out-parameter;
  the function itself returns \<open>true\<close> after the loop, whatever the flag.
\<close>

function FindMaterial_loop ::
  "OBJECT_MATERIAL list \<Rightarrow> string \<Rightarrow> nat \<Rightarrow> bool \<Rightarrow> OBJECT_MATERIAL
     \<Rightarrow> bool \<times> OBJECT_MATERIAL" where
  "FindMaterial_loop ms t index bFound material =
     (if index < length ms \<and> bFound = False then
        (if OBJECT_MATERIAL.tag (ms ! index) = t
         then FindMaterial_loop ms t index True
                (material\<lparr>diffuseColor := diffuseColor (ms ! index),
                          specularColor := specularColor (ms ! index),
                          shininess := shininess (ms ! index)\<rparr>)
         else FindMaterial_loop ms t (index + 1) bFound material)
      else (bFound, material))"
  by pat_completeness auto
termination
  by (relation "measure (\<lambda>(ms, t, index, bFound, material).
        2 * (length ms - index) + (if bFound then 0 else 1))") auto

definition FindMaterial ::
  "SceneManager \<Rightarrow> string \<Rightarrow> OBJECT_MATERIAL \<Rightarrow> bool \<times> OBJECT_MATERIAL" where
  "FindMaterial s t material =
     (if length (m_objectMaterials s) = 0 then (False, material)
      else (True, snd (FindMaterial_loop (m_objectMaterials s) t 0 False material)))"

section \<open>The glm functions the transform composer calls\<close>

text \<open>
  glm is a library the source includes. Its vector and matrix arithmetic, and
  \<open>glm::scale\<close>, \<open>glm::rotate\<close> and \<open>glm::translate\<close> of \<open>glm/gtx/transform.hpp\<close>, which
  apply the functions of the same name to the identity matrix, follow glm's formulas:
  a matrix product applies the left factor to each column of the right one, and
  \<open>rotate\<close> builds the rotation about the normalised axis.
\<close>

definition smult :: "vec4 \<Rightarrow> real \<Rightarrow> vec4" where
  "smult v k = vec4 (x4 v * k) (y4 v * k) (z4 v * k) (w4 v * k)"

definition vadd :: "vec4 \<Rightarrow> vec4 \<Rightarrow> vec4" where
  "vadd a b = vec4 (x4 a + x4 b) (y4 a + y4 b) (z4 a + z4 b) (w4 a + w4 b)"

definition mat_vec :: "mat4 \<Rightarrow> vec4 \<Rightarrow> vec4" where
  "mat_vec m v =
     vadd (vadd (vadd (smult (col0 m) (x4 v)) (smult (col1 m) (y4 v)))
                (smult (col2 m) (z4 v)))
          (smult (col3 m) (w4 v))"

instantiation mat4 :: times
begin

definition times_mat4 :: "mat4 \<Rightarrow> mat4 \<Rightarrow> mat4" where
  "times_mat4 m1 m2 =
     mat4 (mat_vec m1 (col0 m2)) (mat_vec m1 (col1 m2))
          (mat_vec m1 (col2 m2)) (mat_vec m1 (col3 m2))"

instance ..

end

definition identity :: mat4 where
  "identity = mat4 (vec4 1 0 0 0) (vec4 0 1 0 0) (vec4 0 0 1 0) (vec4 0 0 0 1)"

definition glm_radians :: "real \<Rightarrow> real" where
  "glm_radians degrees = degrees * (pi / 180)"

definition glm_normalize :: "vec3 \<Rightarrow> vec3" where
  "glm_normalize v =
     (let n = sqrt (vx v * vx v + vy v * vy v + vz v * vz v)
      in vec3 (vx v / n) (vy v / n) (vz v / n))"

definition glm_scale_m :: "mat4 \<Rightarrow> vec3 \<Rightarrow> mat4" where
  "glm_scale_m m v =
     mat4 (smult (col0 m) (vx v)) (smult (col1 m) (vy v)) (smult (col2 m) (vz v)) (col3 m)"

definition glm_translate_m :: "mat4 \<Rightarrow> vec3 \<Rightarrow> mat4" where
  "glm_translate_m m v =
     mat4 (col0 m) (col1 m) (col2 m)
          (vadd (vadd (vadd (smult (col0 m) (vx v)) (smult (col1 m) (vy v)))
                      (smult (col2 m) (vz v)))
                (col3 m))"

definition glm_rotate_m :: "mat4 \<Rightarrow> real \<Rightarrow> vec3 \<Rightarrow> mat4" where
  "glm_rotate_m m angle v =
     (let c = cos angle;
          s = sin angle;
          axis = glm_normalize v;
          temp = vec3 ((1 - c) * vx axis) ((1 - c) * vy axis) ((1 - c) * vz axis);
          r00 = c + vx temp * vx axis;
          r01 = vx temp * vy axis + s * vz axis;
          r02 = vx temp * vz axis - s * vy axis;
          r10 = vy temp * vx axis - s * vz axis;
          r11 = c + vy temp * vy axis;
          r12 = vy temp * vz axis + s * vx axis;
          r20 = vz temp * vx axis + s * vy axis;
          r21 = vz temp * vy axis - s * vx axis;
          r22 = c + vz temp * vz axis
      in mat4 (vadd (vadd (smult (col0 m) r00) (smult (col1 m) r01)) (smult (col2 m) r02))
              (vadd (vadd (smult (col0 m) r10) (smult (col1 m) r11)) (smult (col2 m) r12))
              (vadd (vadd (smult (col0 m) r20) (smult (col1 m) r21)) (smult (col2 m) r22))
              (col3 m))"

definition glm_scale :: "vec3 \<Rightarrow> mat4" where
  "glm_scale v = glm_scale_m identity v"

definition glm_rotate :: "real \<Rightarrow> vec3 \<Rightarrow> mat4" where
  "glm_rotate angle v = glm_rotate_m identity angle v"

definition glm_translate :: "vec3 \<Rightarrow> mat4" where
  "glm_translate v = glm_translate_m identity v"

text \<open>
  The matrices the specification names, written out entry by entry (columns first):
  scaling, translation, and the rotations about the three coordinate axes.
\<close>

definition Scale :: "vec3 \<Rightarrow> mat4" where
  "Scale v = mat4 (vec4 (vx v) 0 0 0) (vec4 0 (vy v) 0 0) (vec4 0 0 (vz v) 0) (vec4 0 0 0 1)"

definition Translate :: "vec3 \<Rightarrow> mat4" where
  "Translate v = mat4 (vec4 1 0 0 0) (vec4 0 1 0 0) (vec4 0 0 1 0) (vec4 (vx v) (vy v) (vz v) 1)"

definition RotateX :: "real \<Rightarrow> mat4" where
  "RotateX a = mat4 (vec4 1 0 0 0) (vec4 0 (cos a) (sin a) 0) (vec4 0 (- sin a) (cos a) 0)
                    (vec4 0 0 0 1)"

definition RotateY :: "real \<Rightarrow> mat4" where
  "RotateY a = mat4 (vec4 (cos a) 0 (- sin a) 0) (vec4 0 1 0 0) (vec4 (sin a) 0 (cos a) 0)
                    (vec4 0 0 0 1)"

definition RotateZ :: "real \<Rightarrow> mat4" where
  "RotateZ a = mat4 (vec4 (cos a) (sin a) 0 0) (vec4 (- sin a) (cos a) 0 0) (vec4 0 0 1 0)
                    (vec4 0 0 0 1)"

section \<open>Shader state setters\<close>

definition g_ModelName :: string where "g_ModelName = ''model''"

definition g_ColorValueName :: string where "g_ColorValueName = ''objectColor''"

definition g_TextureValueName :: string where "g_TextureValueName = ''objectTexture''"

definition g_UseTextureName :: string where "g_UseTextureName = ''bUseTexture''"

definition g_UseLightingName :: string where "g_UseLightingName = ''bUseLighting''"

definition SetTransformations ::
  "vec3 \<Rightarrow> real \<Rightarrow> real \<Rightarrow> real \<Rightarrow> vec3 \<Rightarrow> SceneManager \<Rightarrow> SceneManager" where
  "SetTransformations scaleXYZ XrotationDegrees YrotationDegrees ZrotationDegrees positionXYZ s =
     (let scale = glm_scale scaleXYZ;
          rotationX = glm_rotate (glm_radians XrotationDegrees) (vec3 1 0 0);
          rotationY = glm_rotate (glm_radians YrotationDegrees) (vec3 0 1 0);
          rotationZ = glm_rotate (glm_radians ZrotationDegrees) (vec3 0 0 1);
          translation = glm_translate positionXYZ;
          modelView = translation * rotationZ * rotationY * rotationX * scale
      in case m_pShaderManager s of
           None \<Rightarrow> s
         | Some sh \<Rightarrow>
             s\<lparr>m_pShaderManager := Some (setValue g_ModelName (Mat4Value modelView) sh)\<rparr>)"

definition SetShaderColor :: "real \<Rightarrow> real \<Rightarrow> real \<Rightarrow> real \<Rightarrow> SceneManager \<Rightarrow> SceneManager" where
  "SetShaderColor redColorValue greenColorValue blueColorValue alphaValue s =
     (let currentColor = vec4 redColorValue greenColorValue blueColorValue alphaValue
      in case m_pShaderManager s of
           None \<Rightarrow> s
         | Some sh \<Rightarrow>
             s\<lparr>m_pShaderManager :=
                 Some (setValue g_ColorValueName (Vec4Value currentColor)
                        (setValue g_UseTextureName (IntValue 0) sh))\<rparr>)"

definition SetShaderTexture :: "string \<Rightarrow> SceneManager \<Rightarrow> error + SceneManager" where
  "SetShaderTexture textureTag s =
     (case m_pShaderManager s of
        None \<Rightarrow> Inr s
      | Some sh \<Rightarrow>
          (case FindTextureSlot s textureTag of
             Inl e \<Rightarrow> Inl e
           | Inr textureID \<Rightarrow>
               Inr (s\<lparr>m_pShaderManager :=
                        Some (setValue g_TextureValueName (Sampler2DValue textureID)
                               (setValue g_UseTextureName (IntValue 1) sh))\<rparr>)))"

definition SetTextureUVScale :: "real \<Rightarrow> real \<Rightarrow> SceneManager \<Rightarrow> SceneManager" where
  "SetTextureUVScale u v s =
     (case m_pShaderManager s of
        None \<Rightarrow> s
      | Some sh \<Rightarrow> s\<lparr>m_pShaderManager := Some (setValue ''UVscale'' (Vec2Value (vec2 u v)) sh)\<rparr>)"

text \<open>
  A declared \<open>OBJECT_MATERIAL\<close> that is not initialised has the empty string as its
  tag (the default of \<open>std::string\<close>) and indeterminate numbers: \<open>declared u\<close> is such a
  local, with \<open>u\<close> standing for whatever its numbers are.
\<close>

definition declared :: "OBJECT_MATERIAL \<Rightarrow> OBJECT_MATERIAL" where
  "declared u = u\<lparr>OBJECT_MATERIAL.tag := []\<rparr>"

text \<open>
  \<open>SetShaderMaterial\<close> declares its local \<open>material\<close> without initialising it:
  \<open>material0\<close> gives its content at that point. The setters are called through
  \<open>m_pShaderManager\<close> with no \<open>NULL\<close> test.
\<close>

definition SetShaderMaterial ::
  "OBJECT_MATERIAL \<Rightarrow> string \<Rightarrow> SceneManager \<Rightarrow> error + SceneManager" where
  "SetShaderMaterial material0 materialTag s =
     (if length (m_objectMaterials s) > 0 then
        (let (bReturn, material) = FindMaterial s materialTag (declared material0)
         in if bReturn = True then
              (case m_pShaderManager s of
                 None \<Rightarrow> Inl NullPointer
               | Some sh \<Rightarrow>
                   Inr (s\<lparr>m_pShaderManager :=
                            Some (setValue ''material.shininess'' (FloatValue (shininess material))
                                   (setValue ''material.specularColor''
                                      (Vec3Value (specularColor material))
                                      (setValue ''material.diffuseColor''
                                         (Vec3Value (diffuseColor material)) sh)))\<rparr>))
            else Inr s)
      else Inr s)"

section \<open>Textures\<close>

text \<open>
  OpenGL is external. The part of its context the texture functions touch: the texture
  names generated so far (the source never deletes one), the active texture unit, the
  \<open>GL_TEXTURE_2D\<close> binding of every unit, and the remaining calls in order.
  \<open>glGenTextures\<close> hands out the names 1, 2, 3, ... in turn.
\<close>

datatype gl_call =
    TexParameteri string string
  | TexImage2D string int int string
  | GenerateMipmap

record GLState =
  gl_textures :: "GLuint list"
  gl_active :: nat
  gl_units :: "nat \<Rightarrow> GLuint"
  gl_calls :: "gl_call list"

definition glGenTextures :: "GLState \<Rightarrow> GLuint \<times> GLState" where
  "glGenTextures g =
     (let n = of_nat (length (gl_textures g)) + 1
      in (n, g\<lparr>gl_textures := gl_textures g @ [n]\<rparr>))"

definition glBindTexture :: "GLuint \<Rightarrow> GLState \<Rightarrow> GLState" where
  "glBindTexture t g = g\<lparr>gl_units := (gl_units g)(gl_active g := t)\<rparr>"

definition glActiveTexture :: "nat \<Rightarrow> GLState \<Rightarrow> GLState" where
  "glActiveTexture i g = g\<lparr>gl_active := i\<rparr>"

definition glCall :: "gl_call \<Rightarrow> GLState \<Rightarrow> GLState" where
  "glCall c g = g\<lparr>gl_calls := gl_calls g @ [c]\<rparr>"

text \<open>What \<open>stbi_load\<close> reports for a file it could decode.\<close>

record stb_image =
  width :: int
  height :: int
  colorChannels :: int

definition array_update :: "'a list \<Rightarrow> int \<Rightarrow> ('a \<Rightarrow> 'a) \<Rightarrow> error + 'a list" where
  "array_update xs i f =
     (case array_read xs i of Inl e \<Rightarrow> Inl e | Inr v \<Rightarrow> array_write xs i (f v))"

text \<open>
  The last part of \<open>CreateGLTexture\<close>, after the pixel data has been uploaded: mipmaps,
  unbinding, and the registration of the texture under its tag.
\<close>

definition register_texture ::
  "GLuint \<Rightarrow> string \<Rightarrow> SceneManager \<times> GLState \<Rightarrow> error + (bool \<times> SceneManager \<times> GLState)" where
  "register_texture textureID t sg =
     (let s = fst sg;
          g = glBindTexture 0 (glCall GenerateMipmap (snd sg))
      in case array_update (m_textureIDs s) (m_loadedTextures s) (\<lambda>e. e\<lparr>ID := textureID\<rparr>) of
           Inl e \<Rightarrow> Inl e
         | Inr a1 \<Rightarrow>
             (case array_update a1 (m_loadedTextures s) (\<lambda>e. e\<lparr>TEXTURE_INFO.tag := t\<rparr>) of
                Inl e \<Rightarrow> Inl e
              | Inr a2 \<Rightarrow>
                  Inr (True,
                       s\<lparr>m_textureIDs := a2, m_loadedTextures := m_loadedTextures s + 1\<rparr>,
                       g)))"

text \<open>
  \<open>CreateGLTexture\<close>. \<open>stbi_load\<close> is the image decoder: \<open>None\<close> for a file it cannot
  parse. The vertical flip it is told to apply, the release of the decoded pixels and
  the messages written to \<open>std::cout\<close> are left out: they touch neither the scene
  manager nor the texture names and bindings.
\<close>

definition CreateGLTexture ::
  "(string \<Rightarrow> stb_image option) \<Rightarrow> string \<Rightarrow> string \<Rightarrow> SceneManager \<times> GLState
     \<Rightarrow> error + (bool \<times> SceneManager \<times> GLState)" where
  "CreateGLTexture stbi_load filename t sg =
     (case stbi_load filename of
        Some img \<Rightarrow>
          (let s = fst sg;
               (textureID, g1) = glGenTextures (snd sg);
               g2 = glBindTexture textureID g1;
               g3 = glCall (TexParameteri ''GL_TEXTURE_WRAP_S'' ''GL_REPEAT'') g2;
               g4 = glCall (TexParameteri ''GL_TEXTURE_WRAP_T'' ''GL_REPEAT'') g3;
               g5 = glCall (TexParameteri ''GL_TEXTURE_MIN_FILTER'' ''GL_LINEAR'') g4;
               g6 = glCall (TexParameteri ''GL_TEXTURE_MAG_FILTER'' ''GL_LINEAR'') g5
           in if colorChannels img = 3 then
                register_texture textureID t
                  (s, glCall (TexImage2D ''GL_RGB8'' (width img) (height img) ''GL_RGB'') g6)
              else if colorChannels img = 4 then
                register_texture textureID t
                  (s, glCall (TexImage2D ''GL_RGBA8'' (width img) (height img) ''GL_RGBA'') g6)
              else Inr (False, s, g6))
      | None \<Rightarrow> Inr (False, fst sg, snd sg))"

function BindGLTextures_loop :: "SceneManager \<Rightarrow> int \<Rightarrow> GLState \<Rightarrow> error + GLState" where
  "BindGLTextures_loop s i g =
     (if i < m_loadedTextures s then
        (case array_read (m_textureIDs s) i of
           Inl e \<Rightarrow> Inl e
         | Inr e \<Rightarrow> BindGLTextures_loop s (i + 1) (glBindTexture (ID e) (glActiveTexture (nat i) g)))
      else Inr g)"
  by pat_completeness auto
termination
  by (relation "measure (\<lambda>(s, i, g). nat (m_loadedTextures s - i))") auto

definition BindGLTextures :: "SceneManager \<times> GLState \<Rightarrow> error + (SceneManager \<times> GLState)" where
  "BindGLTextures sg =
     (case BindGLTextures_loop (fst sg) 0 (snd sg) of
        Inl e \<Rightarrow> Inl e
      | Inr g \<Rightarrow> Inr (fst sg, g))"

function DestroyGLTextures_loop ::
  "int \<Rightarrow> SceneManager \<times> GLState \<Rightarrow> error + (SceneManager \<times> GLState)" where
  "DestroyGLTextures_loop i sg =
     (if i < m_loadedTextures (fst sg) then
        (let (n, g) = glGenTextures (snd sg)
         in case array_update (m_textureIDs (fst sg)) i (\<lambda>e. e\<lparr>ID := n\<rparr>) of
              Inl e \<Rightarrow> Inl e
            | Inr a \<Rightarrow> DestroyGLTextures_loop (i + 1) ((fst sg)\<lparr>m_textureIDs := a\<rparr>, g))
      else Inr sg)"
  by pat_completeness auto
termination
  by (relation "measure (\<lambda>(i, sg). nat (m_loadedTextures (fst sg) - i))")
     (auto simp: glGenTextures_def Let_def)

definition DestroyGLTextures :: "SceneManager \<times> GLState \<Rightarrow> error + (SceneManager \<times> GLState)" where
  "DestroyGLTextures sg = DestroyGLTextures_loop 0 sg"

section \<open>Scene preparation\<close>

text \<open>Statements in sequence: the first undefined step ends the run.\<close>

fun run :: "('s \<Rightarrow> error + 's) list \<Rightarrow> 's \<Rightarrow> error + 's" where
  "run [] s = Inr s"
| "run (f # fs) s = (case f s of Inl e \<Rightarrow> Inl e | Inr s' \<Rightarrow> run fs s')"

definition ok :: "('s \<Rightarrow> 's) \<Rightarrow> 's \<Rightarrow> error + 's" where
  "ok f s = Inr (f s)"

text \<open>A \<open>CreateGLTexture\<close> call whose result is assigned to \<open>bReturn\<close> and not read.\<close>

definition load ::
  "(string \<Rightarrow> stb_image option) \<Rightarrow> string \<Rightarrow> string \<Rightarrow> SceneManager \<times> GLState
     \<Rightarrow> error + (SceneManager \<times> GLState)" where
  "load stbi_load filename t sg =
     (case CreateGLTexture stbi_load filename t sg of
        Inl e \<Rightarrow> Inl e
      | Inr r \<Rightarrow> Inr (snd r))"

definition LoadSceneTextures ::
  "(string \<Rightarrow> stb_image option) \<Rightarrow> SceneManager \<times> GLState \<Rightarrow> error + (SceneManager \<times> GLState)" where
  "LoadSceneTextures stbi_load = run
     [load stbi_load ''./textures/wood.jpg'' ''floor'',
      load stbi_load ''./textures/wall.jpg'' ''wall'',
      load stbi_load ''./textures/tan.jpg'' ''vase'',
      load stbi_load ''./textures/red.jpeg'' ''book'',
      load stbi_load ''./textures/brick.jpeg'' ''brick'',
      load stbi_load ''./textures/glass.jpg'' ''window'',
      load stbi_load ''./textures/green.jpg'' ''book1'',
      load stbi_load ''./textures/blue.jpg'' ''book2'',
      load stbi_load ''./textures/desk.jpg'' ''desk'',
      load stbi_load ''./textures/book3.jpg'' ''book3'',
      load stbi_load ''./textures/fur.jpeg'' ''cat'',
      BindGLTextures]"

text \<open>
  \<open>DefineObjectMaterials\<close> declares four locals: \<open>u1\<close> to \<open>u4\<close> give what they hold when
  declared.
\<close>

definition push_back :: "OBJECT_MATERIAL \<Rightarrow> SceneManager \<Rightarrow> SceneManager" where
  "push_back m s = s\<lparr>m_objectMaterials := m_objectMaterials s @ [m]\<rparr>"

definition DefineObjectMaterials ::
  "OBJECT_MATERIAL \<Rightarrow> OBJECT_MATERIAL \<Rightarrow> OBJECT_MATERIAL \<Rightarrow> OBJECT_MATERIAL
     \<Rightarrow> SceneManager \<Rightarrow> SceneManager" where
  "DefineObjectMaterials u1 u2 u3 u4 s =
     (let clayMaterial = declared u1;
          clayMaterial = clayMaterial\<lparr>ambientColor := vec3 0.2 0.2 0.3\<rparr>;
          clayMaterial = clayMaterial\<lparr>ambientStrength := 0.3\<rparr>;
          clayMaterial = clayMaterial\<lparr>diffuseColor := vec3 0.4 0.4 0.5\<rparr>;
          clayMaterial = clayMaterial\<lparr>specularColor := vec3 0.2 0.2 0.4\<rparr>;
          clayMaterial = clayMaterial\<lparr>shininess := 0.5\<rparr>;
          clayMaterial = clayMaterial\<lparr>OBJECT_MATERIAL.tag := ''clay''\<rparr>;
          s = push_back clayMaterial s;
          woodMaterial = declared u2;
          woodMaterial = woodMaterial\<lparr>diffuseColor := vec3 0.2 0.2 0.3\<rparr>;
          woodMaterial = woodMaterial\<lparr>specularColor := vec3 0 0 0\<rparr>;
          woodMaterial = woodMaterial\<lparr>shininess := 0.1\<rparr>;
          woodMaterial = woodMaterial\<lparr>OBJECT_MATERIAL.tag := ''wood''\<rparr>;
          s = push_back woodMaterial s;
          glassMaterial = declared u3;
          glassMaterial = glassMaterial\<lparr>diffuseColor := vec3 0.2 0.2 0.2\<rparr>;
          glassMaterial = glassMaterial\<lparr>specularColor := vec3 1 1 1\<rparr>;
          glassMaterial = glassMaterial\<lparr>shininess := 95\<rparr>;
          glassMaterial = glassMaterial\<lparr>OBJECT_MATERIAL.tag := ''glass''\<rparr>;
          s = push_back glassMaterial s;
          clothMaterial = declared u4;
          glassMaterial = glassMaterial\<lparr>diffuseColor := vec3 0.2 0.2 0.2\<rparr>;
          glassMaterial = glassMaterial\<lparr>specularColor := vec3 0.2 0.2 0.4\<rparr>;
          glassMaterial = glassMaterial\<lparr>shininess := 0.5\<rparr>;
          glassMaterial = glassMaterial\<lparr>OBJECT_MATERIAL.tag := ''cloth''\<rparr>;
          s = push_back clothMaterial s
      in s)"

section \<open>Rendering\<close>

definition DrawPlaneMesh :: "SceneManager \<Rightarrow> SceneManager" where
  "DrawPlaneMesh s = s\<lparr>m_basicMeshes := m_basicMeshes s @ [DrawMesh PlaneMesh]\<rparr>"

definition DrawSphereMesh :: "SceneManager \<Rightarrow> SceneManager" where
  "DrawSphereMesh s = s\<lparr>m_basicMeshes := m_basicMeshes s @ [DrawMesh SphereMesh]\<rparr>"

definition DrawTaperedCylinderMesh :: "SceneManager \<Rightarrow> SceneManager" where
  "DrawTaperedCylinderMesh s =
     s\<lparr>m_basicMeshes := m_basicMeshes s @ [DrawMesh TaperedCylinderMesh]\<rparr>"

definition DrawBoxMesh :: "SceneManager \<Rightarrow> SceneManager" where
  "DrawBoxMesh s = s\<lparr>m_basicMeshes := m_basicMeshes s @ [DrawMesh BoxMesh]\<rparr>"

definition DrawCylinderMesh :: "SceneManager \<Rightarrow> SceneManager" where
  "DrawCylinderMesh s = s\<lparr>m_basicMeshes := m_basicMeshes s @ [DrawMesh CylinderMesh]\<rparr>"

definition DrawPrismMesh :: "SceneManager \<Rightarrow> SceneManager" where
  "DrawPrismMesh s = s\<lparr>m_basicMeshes := m_basicMeshes s @ [DrawMesh PrismMesh]\<rparr>"

text \<open>
  The eight object routines. Each \<open>SetTransformations\<close> call is written with the values
  its five local variables hold at that point of the routine; \<open>u\<close> is the content of
  the uninitialised local of \<open>SetShaderMaterial\<close>.
\<close>

definition RenderFloor :: "OBJECT_MATERIAL \<Rightarrow> SceneManager \<Rightarrow> error + SceneManager" where
  "RenderFloor u = run
     [ok (SetTransformations (vec3 8.5 0 4.8) 0 0 0 (vec3 2 0 0)),
      SetShaderTexture ''wall'',
      ok (SetTextureUVScale 1 1),
      SetShaderMaterial u ''wood'',
      ok DrawPlaneMesh]"

definition RenderWall :: "OBJECT_MATERIAL \<Rightarrow> SceneManager \<Rightarrow> error + SceneManager" where
  "RenderWall u = run
     [ok (SetTransformations (vec3 8.5 0 6) 90 0 0 (vec3 2 6 (- 4))),
      SetShaderTexture ''brick'',
      ok (SetTextureUVScale 2 1),
      ok DrawPlaneMesh,
      ok (SetTransformations (vec3 4.8 0 6) 0 90 90 (vec3 10.51 6 0)),
      ok (SetShaderColor 1 1 1 1),
      ok DrawPlaneMesh,
      ok (SetTransformations (vec3 4.8 0 6) 0 90 90 (vec3 (- 6.5) 6 0)),
      ok (SetShaderColor 1 1 1 1),
      ok DrawPlaneMesh]"

definition RenderWindow :: "OBJECT_MATERIAL \<Rightarrow> SceneManager \<Rightarrow> error + SceneManager" where
  "RenderWindow u = run
     [ok (SetTransformations (vec3 7 0.5 10) 90 0 0 (vec3 6 6 (- 4))),
      SetShaderTexture ''window'',
      ok (SetTextureUVScale 1 1),
      SetShaderMaterial u ''glass'',
      ok DrawBoxMesh]"

definition RenderVase :: "OBJECT_MATERIAL \<Rightarrow> SceneManager \<Rightarrow> error + SceneManager" where
  "RenderVase u = run
     [ok (SetTransformations (vec3 0.8 0.5 1) 0 0 0 (vec3 9 4.85 3)),
      SetShaderTexture ''vase'',
      ok DrawSphereMesh,
      ok (SetTransformations (vec3 0.9 0.7 1) 180 0 0 (vec3 9 5.5 3)),
      SetShaderTexture ''vase'',
      ok (SetTextureUVScale 1 1),
      SetShaderMaterial u ''clay'',
      ok DrawTaperedCylinderMesh,
      ok (SetTransformations (vec3 1 0.05 0.8) 180 0 0 (vec3 9 4.6 3)),
      SetShaderTexture ''tan'',
      ok (SetTextureUVScale 1 1),
      SetShaderMaterial u ''clay'',
      ok DrawTaperedCylinderMesh]"

definition RenderBookcase :: "OBJECT_MATERIAL \<Rightarrow> SceneManager \<Rightarrow> error + SceneManager" where
  "RenderBookcase u = run
     [ok (SetTransformations (vec3 3 0.2 5) 0 0 0 (vec3 9 4.4 2)),
      SetShaderTexture ''floor'',
      ok (SetTextureUVScale 1 1),
      SetShaderMaterial u ''wood'',
      ok DrawBoxMesh,
      ok (SetTransformations (vec3 3 0.2 5) 0 0 0 (vec3 9 0.1 2)),
      SetShaderTexture ''floor'',
      ok (SetTextureUVScale 1 1),
      SetShaderMaterial u ''wood'',
      ok DrawBoxMesh,
      ok (SetTransformations (vec3 3 0.2 5) 0 0 0 (vec3 9 2.2 2)),
      SetShaderTexture ''floor'',
      ok (SetTextureUVScale 1 1),
      SetShaderMaterial u ''wood'',
      ok DrawBoxMesh,
      ok (SetTransformations (vec3 3 4.7 0.5) 0 0 0 (vec3 9 2.2 (- 0.7))),
      SetShaderTexture ''floor'',
      ok (SetTextureUVScale 1 1),
      SetShaderMaterial u ''wood'',
      ok DrawBoxMesh,
      ok (SetTransformations (vec3 3 4.7 0.5) 0 0 0 (vec3 9 2.2 4.5)),
      SetShaderTexture ''floor'',
      ok (SetTextureUVScale 1 1),
      SetShaderMaterial u ''wood'',
      ok DrawBoxMesh]"

definition RenderBook :: "OBJECT_MATERIAL \<Rightarrow> SceneManager \<Rightarrow> error + SceneManager" where
  "RenderBook u = run
     [ok (SetTransformations (vec3 1.5 2 0.2) 0 0 0 (vec3 9 5.4 1.5)),
      SetShaderTexture ''book'',
      ok DrawBoxMesh,
      ok (SetTransformations (vec3 1.5 1.8 0.2) 0 0 0 (vec3 9 3.1 3)),
      SetShaderTexture ''book'',
      ok DrawBoxMesh,
      ok (SetTransformations (vec3 1.5 1.4 0.2) 0 0 0 (vec3 8.8 3 2.6)),
      SetShaderTexture ''book1'',
      ok DrawBoxMesh,
      ok (SetTransformations (vec3 1.5 1.4 0.2) 0 0 0 (vec3 8.8 3 2)),
      SetShaderTexture ''book2'',
      ok DrawBoxMesh,
      ok (SetTransformations (vec3 1.5 1 0.2) 0 0 0 (vec3 8.8 2.8 1.7)),
      SetShaderTexture ''book'',
      ok DrawBoxMesh,
      ok (SetTransformations (vec3 1.5 1.4 0.2) 0 0 0 (vec3 8.8 5 2)),
      SetShaderTexture ''book2'',
      ok DrawBoxMesh,
      ok (SetTransformations (vec3 1.5 2 0.2) 0 0 0 (vec3 8.8 5.3 1.2)),
      SetShaderTexture ''book1'',
      ok (SetTransformations (vec3 1.5 2 0.2) 0 0 0 (vec3 1.6 5.2 (- 1.5))),
      SetShaderTexture ''book'',
      ok DrawBoxMesh,
      ok (SetTransformations (vec3 1 1.5 0.2) 0 0 0 (vec3 1.6 5 (- 1.2))),
      SetShaderTexture ''book3'',
      ok DrawBoxMesh]"

definition RenderDesk :: "OBJECT_MATERIAL \<Rightarrow> SceneManager \<Rightarrow> error + SceneManager" where
  "RenderDesk u = run
     [ok (SetTransformations (vec3 9 0.5 2) 0 0 0 (vec3 (- 2) 4 (- 2))),
      SetShaderTexture ''floor'',
      ok (SetTextureUVScale 1 1),
      SetShaderMaterial u ''wood'',
      ok DrawBoxMesh,
      ok (SetTransformations (vec3 0.5 4 2) 0 0 0 (vec3 (- 6.2) 2 (- 2))),
      SetShaderTexture ''floor'',
      ok (SetTextureUVScale 1 1),
      SetShaderMaterial u ''wood'',
      ok DrawBoxMesh,
      ok (SetTransformations (vec3 0.5 4 2) 0 0 0 (vec3 2.2 2 (- 2))),
      SetShaderTexture ''floor'',
      ok (SetTextureUVScale 1 1),
      SetShaderMaterial u ''wood'',
      ok DrawBoxMesh]"

definition RenderCat :: "OBJECT_MATERIAL \<Rightarrow> SceneManager \<Rightarrow> error + SceneManager" where
  "RenderCat u = run
     [ok (SetTransformations (vec3 0.6 1.9 0.5) 90 90 0 (vec3 2 1 2)),
      ok (SetShaderColor 0.5 0.5 0.5 1),
      ok DrawCylinderMesh,
      ok (SetTransformations (vec3 0.3 0.7 0.5) 0 0 0 (vec3 3.5 1 2)),
      ok (SetShaderColor 0.5 0.5 0.5 1),
      ok DrawCylinderMesh,
      ok (SetTransformations (vec3 0.6 0.7 0.5) 0 0 0 (vec3 3.5 1.7 2)),
      ok (SetShaderColor 0.5 0.5 0.5 1),
      ok DrawSphereMesh,
      ok (SetTransformations (vec3 0.5 0.6 0.5) 90 90 0 (vec3 3.6 1.7 2)),
      ok (SetShaderColor 0.5 0.5 0.5 1),
      ok (SetTextureUVScale 2 1),
      ok DrawTaperedCylinderMesh,
      ok (SetTransformations (vec3 0.2 0.2 0.1) (- 30) 0 0 (vec3 3.4 2.4 2)),
      ok (SetShaderColor 0.5 0.5 0.5 1),
      ok (SetTextureUVScale 2 1),
      ok DrawPrismMesh,
      ok (SetTransformations (vec3 0.2 0.2 0.1) (- 30) 0 0 (vec3 3.4 1.7 2)),
      ok (SetShaderColor 0.5 0.5 0.5 1),
      ok (SetTextureUVScale 2 1),
      ok DrawTaperedCylinderMesh,
      ok (SetTransformations (vec3 0.2 0.2 0.1) (- 30) 0 0 (vec3 3.4 2.4 2.2)),
      ok (SetShaderColor 0.5 0.5 0.5 1),
      ok (SetTextureUVScale 2 1),
      ok DrawPrismMesh,
      ok (SetTransformations (vec3 0.2 0.7 0.1) 0 0 0 (vec3 3.7 0 2.2)),
      ok (SetShaderColor 0.5 0.5 0.5 1),
      ok (SetTextureUVScale 2 1),
      ok DrawCylinderMesh,
      ok (SetTransformations (vec3 0.2 0.7 0.1) 0 0 0 (vec3 2.3 0 2.2)),
      ok (SetShaderColor 0.5 0.5 0.5 1),
      ok (SetTextureUVScale 2 1),
      ok DrawCylinderMesh,
      ok (SetTransformations (vec3 0.2 0.7 0.1) 0 0 0 (vec3 3.7 0 1.7)),
      ok (SetShaderColor 0.5 0.5 0.5 1),
      ok (SetTextureUVScale 2 1),
      ok DrawCylinderMesh,
      ok (SetTransformations (vec3 0.2 0.7 0.1) 0 0 0 (vec3 2.3 0 1.7)),
      ok (SetShaderColor 0.5 0.5 0.5 1),
      ok (SetTextureUVScale 2 1),
      ok DrawCylinderMesh,
      ok (SetTransformations (vec3 0.2 1.5 0.1) (- 45) 90 0 (vec3 2.3 1 2)),
      ok (SetShaderColor 0.5 0.5 0.5 1),
      ok (SetTextureUVScale 2 1),
      ok DrawCylinderMesh]"

definition RenderScene :: "OBJECT_MATERIAL \<Rightarrow> SceneManager \<Rightarrow> error + SceneManager" where
  "RenderScene u = run
     [RenderFloor u,
      RenderWall u,
      RenderBookcase u,
      RenderWindow u,
      RenderVase u,
      RenderBook u,
      RenderDesk u,
      RenderCat u]"

text \<open>What a match on the entry \<open>e\<close> writes into the out-parameter of \<open>FindMaterial\<close>.\<close>

definition copy_material :: "OBJECT_MATERIAL \<Rightarrow> OBJECT_MATERIAL \<Rightarrow> OBJECT_MATERIAL" where
  "copy_material e m = m\<lparr>diffuseColor := diffuseColor e, specularColor := specularColor e,
                         shininess := shininess e\<rparr>"

text \<open>
  \<open>SetupSceneLights\<close> calls the setters through \<open>m_pShaderManager\<close> with no \<open>NULL\<close>
  test; \<open>PrepareScene\<close> runs the four preparation steps in order.
\<close>

definition SetupSceneLights :: "SceneManager \<Rightarrow> error + SceneManager" where
  "SetupSceneLights s =
     (case m_pShaderManager s of
        None \<Rightarrow> Inl NullPointer
      | Some sh \<Rightarrow>
          Inr (s\<lparr>m_pShaderManager := Some (foldl (\<lambda>h nv. setValue (fst nv) (snd nv) h) sh
             [(g_UseLightingName, BoolValue True),
              (''directionalLight.direction'', Vec3Value (vec3 0 (- 1) 1)),
              (''directionalLight.ambient'', Vec3Value (vec3 0.1 0.1 0.1)),
              (''directionalLight.diffuse'', Vec3Value (vec3 1 1 1)),
              (''directionalLight.specular'', Vec3Value (vec3 1 1 1)),
              (''directionalLight.bActive'', BoolValue True),
              (''pointLights[0].position'', Vec3Value (vec3 (- 4) 8 0)),
              (''pointLights[0].ambient'', Vec3Value (vec3 1 0.6 0.1)),
              (''pointLights[0].diffuse'', Vec3Value (vec3 0.1 0.1 0.1)),
              (''pointLights[0].specular'', Vec3Value (vec3 0.1 0.1 0.1)),
              (''pointLights[0].bActive'', BoolValue True),
              (''spotLight.position'', Vec3Value (vec3 3 8 (- 10))),
              (''spotLight.direction'', Vec3Value (vec3 0.5 (- 0.5) 1)),
              (''spotLight.ambient'', Vec3Value (vec3 1 1 1)),
              (''spotLight.diffuse'', Vec3Value (vec3 1 1 1)),
              (''spotLight.specular'', Vec3Value (vec3 1 1 1)),
              (''spotLight.constant'', FloatValue 1),
              (''spotLight.linear'', FloatValue 0.3),
              (''spotLight.quadratic'', FloatValue 0.01),
              (''spotLight.cutOff'', FloatValue (cos (glm_radians 10))),
              (''spotLight.outerCutOff'', FloatValue (cos (glm_radians 30))),
              (''spotLight.bActive'', BoolValue True)])\<rparr>))"

definition LoadMeshes :: "SceneManager \<Rightarrow> SceneManager" where
  "LoadMeshes s =
     s\<lparr>m_basicMeshes := m_basicMeshes s @
         [LoadMesh PlaneMesh, LoadMesh SphereMesh, LoadMesh TorusMesh,
          LoadMesh TaperedCylinderMesh, LoadMesh BoxMesh, LoadMesh CylinderMesh,
          LoadMesh PrismMesh]\<rparr>"

definition PrepareScene ::
  "(string \<Rightarrow> stb_image option) \<Rightarrow> OBJECT_MATERIAL \<Rightarrow> OBJECT_MATERIAL \<Rightarrow> OBJECT_MATERIAL
     \<Rightarrow> OBJECT_MATERIAL \<Rightarrow> SceneManager \<times> GLState \<Rightarrow> error + (SceneManager \<times> GLState)" where
  "PrepareScene stbi_load u1 u2 u3 u4 sg =
     (case LoadSceneTextures stbi_load sg of
        Inl e \<Rightarrow> Inl e
      | Inr sg1 \<Rightarrow>
          (case SetupSceneLights (DefineObjectMaterials u1 u2 u3 u4 (fst sg1)) of
             Inl e \<Rightarrow> Inl e
           | Inr s3 \<Rightarrow> Inr (LoadMeshes s3, snd sg1)))"

section \<open>Example states\<close>

text \<open>
  A scene manager with a shader manager, an array of capacity 16, no texture and no
  material; a content for an uninitialised material; the registry
  \<open>DefineObjectMaterials\<close> builds from the empty one; and a small scene whose
  registries hold duplicate tags.
\<close>

definition scene0 :: SceneManager where
  "scene0 = \<lparr>m_pShaderManager = Some \<lparr>uniforms = []\<rparr>, m_basicMeshes = [],
             m_textureIDs = replicate 16 \<lparr>ID = 0, tag = []\<rparr>, m_loadedTextures = 0,
             m_objectMaterials = []\<rparr>"

definition junk :: OBJECT_MATERIAL where
  "junk = \<lparr>ambientStrength = 11, ambientColor = vec3 12 13 14, diffuseColor = vec3 15 16 17,
           specularColor = vec3 18 19 20, shininess = 21, tag = ''junk''\<rparr>"

definition scene_mat :: SceneManager where
  "scene_mat = DefineObjectMaterials junk junk junk junk scene0"

definition scene3 :: SceneManager where
  "scene3 = \<lparr>m_pShaderManager = Some \<lparr>uniforms = []\<rparr>, m_basicMeshes = [],
             m_textureIDs = [\<lparr>ID = 1, tag = ''floor''\<rparr>, \<lparr>ID = 2, tag = ''wall''\<rparr>,
                             \<lparr>ID = 3, tag = ''wall''\<rparr>, \<lparr>ID = 0, tag = []\<rparr>],
             m_loadedTextures = 3,
             m_objectMaterials =
               [\<lparr>ambientStrength = 0, ambientColor = vec3 0 0 0, diffuseColor = vec3 1 2 3,
                 specularColor = vec3 4 5 6, shininess = 7, tag = ''wood''\<rparr>,
                \<lparr>ambientStrength = 0, ambientColor = vec3 0 0 0, diffuseColor = vec3 8 8 8,
                 specularColor = vec3 9 9 9, shininess = 10, tag = ''wood''\<rparr>]\<rparr>"

definition gl0 :: GLState where
  "gl0 = \<lparr>gl_textures = [], gl_active = 0, gl_units = (\<lambda>_. 0), gl_calls = []\<rparr>"

definition gl3 :: GLState where
  "gl3 = \<lparr>gl_textures = [1, 2, 3], gl_active = 0, gl_units = (\<lambda>_. 0), gl_calls = []\<rparr>"

text \<open>The texture names in use are those \<open>glGenTextures\<close> hands out, in its order.\<close>

definition gl_sequential :: "GLState \<Rightarrow> bool" where
  "gl_sequential g = (gl_textures g = map (\<lambda>k. of_nat k + 1) [0..<length (gl_textures g)])"

text \<open>
  A sequence of \<open>CreateGLTexture\<close> calls, one per pair of a file name and a tag, and the
  files the decoder reads with three or four channels.
\<close>

definition loads ::
  "(string \<Rightarrow> stb_image option) \<Rightarrow> (string \<times> string) list \<Rightarrow> SceneManager \<times> GLState
     \<Rightarrow> error + (SceneManager \<times> GLState)" where
  "loads stbi_load ls = run (map (\<lambda>ft. load stbi_load (fst ft) (snd ft)) ls)"

definition decodes :: "(string \<Rightarrow> stb_image option) \<Rightarrow> string \<Rightarrow> bool" where
  "decodes stbi_load f =
     (case stbi_load f of None \<Rightarrow> False | Some img \<Rightarrow> colorChannels img = 3 \<or> colorChannels img = 4)"

definition rgb :: stb_image where
  "rgb = \<lparr>width = 2, height = 2, colorChannels = 3\<rparr>"

definition grey :: stb_image where
  "grey = \<lparr>width = 2, height = 2, colorChannels = 1\<rparr>"

section \<open>What a routine sends to its collaborators\<close>

text \<open>
  The registries a routine reads, the states in which the routines are run (counter
  within the array, a shader manager present), and the state after some further setter
  calls and mesh calls. A step is steady when, on every such state, it returns normally
  and only adds calls that the registries determine; it draws \<open>ds\<close> when these are the
  mesh calls it adds.
\<close>

definition registry :: "SceneManager \<Rightarrow> TEXTURE_INFO list \<times> int \<times> OBJECT_MATERIAL list" where
  "registry s = (m_textureIDs s, m_loadedTextures s, m_objectMaterials s)"

definition ready :: "SceneManager \<Rightarrow> bool" where
  "ready s = (well_formed s \<and> m_pShaderManager s \<noteq> None)"

definition emit ::
  "(string \<times> uniform_value) list \<Rightarrow> mesh_call list \<Rightarrow> SceneManager \<Rightarrow> SceneManager" where
  "emit ups ds s =
     s\<lparr>m_pShaderManager := map_option (\<lambda>sh. sh\<lparr>uniforms := uniforms sh @ ups\<rparr>) (m_pShaderManager s),
       m_basicMeshes := m_basicMeshes s @ ds\<rparr>"

definition steady :: "(SceneManager \<Rightarrow> error + SceneManager) \<Rightarrow> bool" where
  "steady f = (\<exists>out. \<forall>s. ready s \<longrightarrow> f s = Inr (emit (fst (out (registry s))) (snd (out (registry s))) s))"

definition drawn :: "(SceneManager \<Rightarrow> error + SceneManager) \<Rightarrow> mesh_call list \<Rightarrow> bool" where
  "drawn f ds = (\<forall>s s'. f s = Inr s' \<longrightarrow> m_basicMeshes s' = m_basicMeshes s @ ds)"

text \<open>The position of the first occurrence of a tag, or -1.\<close>

definition first_index :: "string list \<Rightarrow> string \<Rightarrow> int" where
  "first_index xs t = (if t \<in> set xs then int (length (takeWhile (\<lambda>x. x \<noteq> t) xs)) else - 1)"

section \<open>Transformations of a point, in coordinates\<close>

text \<open>
  What the specification's five transformations do to a point, written coordinate by
  coordinate, and the point a column-major 4x4 matrix sends the point \<open>(x, y, z, 1)\<close> to.
  None of them uses the matrix arithmetic above.
\<close>

definition scale_point :: "vec3 \<Rightarrow> vec3 \<Rightarrow> vec3" where
  "scale_point k q = vec3 (vx k * vx q) (vy k * vy q) (vz k * vz q)"

definition rotate_x_point :: "real \<Rightarrow> vec3 \<Rightarrow> vec3" where
  "rotate_x_point a q = vec3 (vx q) (cos a * vy q - sin a * vz q) (sin a * vy q + cos a * vz q)"

definition rotate_y_point :: "real \<Rightarrow> vec3 \<Rightarrow> vec3" where
  "rotate_y_point a q = vec3 (cos a * vx q + sin a * vz q) (vy q) (cos a * vz q - sin a * vx q)"

definition rotate_z_point :: "real \<Rightarrow> vec3 \<Rightarrow> vec3" where
  "rotate_z_point a q = vec3 (cos a * vx q - sin a * vy q) (sin a * vx q + cos a * vy q) (vz q)"

definition translate_point :: "vec3 \<Rightarrow> vec3 \<Rightarrow> vec3" where
  "translate_point d q = vec3 (vx q + vx d) (vy q + vy d) (vz q + vz d)"

definition apply_point :: "mat4 \<Rightarrow> vec3 \<Rightarrow> vec3" where
  "apply_point m q =
     vec3 (x4 (col0 m) * vx q + x4 (col1 m) * vy q + x4 (col2 m) * vz q + x4 (col3 m))
          (y4 (col0 m) * vx q + y4 (col1 m) * vy q + y4 (col2 m) * vz q + y4 (col3 m))
          (z4 (col0 m) * vx q + z4 (col1 m) * vy q + z4 (col2 m) * vz q + z4 (col3 m))"

text \<open>
  The model matrix of scale \<open>k\<close>, angles \<open>a\<close>, \<open>b\<close>, \<open>c\<close> (radians, about X, Y, Z) and
  translation \<open>d\<close>, entry by entry: its first three columns are the images of the scaled
  coordinate axes under the rotation about X, then Y, then Z, its last column is the
  translation.
\<close>

definition model_matrix :: "vec3 \<Rightarrow> real \<Rightarrow> real \<Rightarrow> real \<Rightarrow> vec3 \<Rightarrow> mat4" where
  "model_matrix k a b c d =
     mat4 (vec4 (vx k * (cos c * cos b)) (vx k * (sin c * cos b)) (vx k * (- sin b)) 0)
          (vec4 (vy k * (cos c * sin b * sin a - sin c * cos a))
                (vy k * (sin c * sin b * sin a + cos c * cos a))
                (vy k * (cos b * sin a)) 0)
          (vec4 (vz k * (cos c * sin b * cos a + sin c * sin a))
                (vz k * (sin c * sin b * cos a - cos c * sin a))
                (vz k * (cos b * cos a)) 0)
          (vec4 (vx d) (vy d) (vz d) 1)"

section \<open>Properties of the lookups\<close>

declare FindTextureID_loop.simps [simp del]
declare FindTextureSlot_loop.simps [simp del]
declare FindMaterial_loop.simps [simp del]

lemma entries_nth: "n < length (entries s) \<Longrightarrow> entries s ! n = m_textureIDs s ! n"
  by (simp add: entries_def)

lemma length_entries: "well_formed s \<Longrightarrow> length (entries s) = nat (m_loadedTextures s)"
  by (auto simp: entries_def well_formed_def)

lemma FindTextureSlot_loop_done: "FindTextureSlot_loop s t slot i True = Inr slot"
  by (simp add: FindTextureSlot_loop.simps)

lemma FindTextureSlot_loop_miss:
  assumes "well_formed s" and "0 \<le> i"
    and "\<forall>j. nat i \<le> j \<and> j < length (entries s) \<longrightarrow> TEXTURE_INFO.tag (entries s ! j) \<noteq> t"
  shows "FindTextureSlot_loop s t slot i False = Inr slot"
  using assms
proof (induction "nat (m_loadedTextures s - i)" arbitrary: i)
  case 0
  then show ?case by (simp add: FindTextureSlot_loop.simps)
next
  case (Suc n)
  then have lt: "i < m_loadedTextures s" by linarith
  with Suc.prems have inr: "nat i < length (entries s)"
    by (simp add: length_entries)
  have rd: "array_read (m_textureIDs s) i = Inr (entries s ! nat i)"
    using lt Suc.prems inr by (auto simp: array_read_def well_formed_def entries_nth)
  have ne: "TEXTURE_INFO.tag (entries s ! nat i) \<noteq> t"
    using Suc.prems(3) inr by blast
  have step: "FindTextureSlot_loop s t slot (i + 1) False = Inr slot"
  proof (rule Suc.hyps(1))
    show "n = nat (m_loadedTextures s - (i + 1))" using Suc.hyps(2) by linarith
    show "well_formed s" by fact
    show "0 \<le> i + 1" using Suc.prems by simp
    show "\<forall>j. nat (i + 1) \<le> j \<and> j < length (entries s) \<longrightarrow> TEXTURE_INFO.tag (entries s ! j) \<noteq> t"
      using Suc.prems(2,3) by (auto simp: nat_add_distrib)
  qed
  show ?case
    by (subst FindTextureSlot_loop.simps) (simp add: lt rd ne step)
qed

lemma FindTextureSlot_loop_hit:
  assumes "well_formed s" and "0 \<le> i" and "nat i \<le> k" and "k < length (entries s)"
    and "TEXTURE_INFO.tag (entries s ! k) = t"
    and "\<forall>j. nat i \<le> j \<and> j < k \<longrightarrow> TEXTURE_INFO.tag (entries s ! j) \<noteq> t"
  shows "FindTextureSlot_loop s t slot i False = Inr (int k)"
  using assms
proof (induction "k - nat i" arbitrary: i slot)
  case 0
  then have ik: "i = int k" by simp
  have lt: "int k < m_loadedTextures s" using 0 by (simp add: length_entries)
  have rd: "array_read (m_textureIDs s) (int k) = Inr (entries s ! k)"
    using lt 0 by (auto simp: array_read_def well_formed_def entries_nth)
  show ?case unfolding ik
    by (subst FindTextureSlot_loop.simps) (simp add: lt rd 0 FindTextureSlot_loop_done)
next
  case (Suc n)
  then have ik: "nat i < k" by linarith
  then have inr: "nat i < length (entries s)" using Suc.prems by simp
  then have lt: "i < m_loadedTextures s" using Suc.prems by (simp add: length_entries)
  have rd: "array_read (m_textureIDs s) i = Inr (entries s ! nat i)"
    using lt Suc.prems inr by (auto simp: array_read_def well_formed_def entries_nth)
  have ne: "TEXTURE_INFO.tag (entries s ! nat i) \<noteq> t"
    using Suc.prems(6) ik by blast
  have step: "FindTextureSlot_loop s t slot (i + 1) False = Inr (int k)"
  proof (rule Suc.hyps(1))
    show "n = k - nat (i + 1)" using Suc.hyps(2) Suc.prems(2) by linarith
    show "nat (i + 1) \<le> k" using ik Suc.prems(2) by linarith
    show "\<forall>j. nat (i + 1) \<le> j \<and> j < k \<longrightarrow> TEXTURE_INFO.tag (entries s ! j) \<noteq> t"
      using Suc.prems(2,6) by (auto simp: nat_add_distrib)
  qed (use Suc.prems in auto)
  show ?case
    by (subst FindTextureSlot_loop.simps) (simp add: lt rd ne step)
qed

lemma FindTextureID_loop_done: "FindTextureID_loop s t tid i True = Inr tid"
  by (simp add: FindTextureID_loop.simps)

lemma FindTextureID_loop_miss:
  assumes "well_formed s" and "0 \<le> i"
    and "\<forall>j. nat i \<le> j \<and> j < length (entries s) \<longrightarrow> TEXTURE_INFO.tag (entries s ! j) \<noteq> t"
  shows "FindTextureID_loop s t tid i False = Inr tid"
  using assms
proof (induction "nat (m_loadedTextures s - i)" arbitrary: i)
  case 0
  then show ?case by (simp add: FindTextureID_loop.simps)
next
  case (Suc n)
  then have lt: "i < m_loadedTextures s" by linarith
  with Suc.prems have inr: "nat i < length (entries s)"
    by (simp add: length_entries)
  have rd: "array_read (m_textureIDs s) i = Inr (entries s ! nat i)"
    using lt Suc.prems inr by (auto simp: array_read_def well_formed_def entries_nth)
  have ne: "TEXTURE_INFO.tag (entries s ! nat i) \<noteq> t"
    using Suc.prems(3) inr by blast
  have step: "FindTextureID_loop s t tid (i + 1) False = Inr tid"
  proof (rule Suc.hyps(1))
    show "n = nat (m_loadedTextures s - (i + 1))" using Suc.hyps(2) by linarith
    show "well_formed s" by fact
    show "0 \<le> i + 1" using Suc.prems by simp
    show "\<forall>j. nat (i + 1) \<le> j \<and> j < length (entries s) \<longrightarrow> TEXTURE_INFO.tag (entries s ! j) \<noteq> t"
      using Suc.prems(2,3) by (auto simp: nat_add_distrib)
  qed
  show ?case
    by (subst FindTextureID_loop.simps) (simp add: lt rd ne step)
qed

lemma FindTextureID_loop_hit:
  assumes "well_formed s" and "0 \<le> i" and "nat i \<le> k" and "k < length (entries s)"
    and "TEXTURE_INFO.tag (entries s ! k) = t"
    and "\<forall>j. nat i \<le> j \<and> j < k \<longrightarrow> TEXTURE_INFO.tag (entries s ! j) \<noteq> t"
  shows "FindTextureID_loop s t tid i False = Inr (sint (ID (entries s ! k)))"
  using assms
proof (induction "k - nat i" arbitrary: i tid)
  case 0
  then have ik: "i = int k" by simp
  have lt: "int k < m_loadedTextures s" using 0 by (simp add: length_entries)
  have rd: "array_read (m_textureIDs s) (int k) = Inr (entries s ! k)"
    using lt 0 by (auto simp: array_read_def well_formed_def entries_nth)
  show ?case unfolding ik
    by (subst FindTextureID_loop.simps) (simp add: lt rd 0 FindTextureID_loop_done)
next
  case (Suc n)
  then have ik: "nat i < k" by linarith
  then have inr: "nat i < length (entries s)" using Suc.prems by simp
  then have lt: "i < m_loadedTextures s" using Suc.prems by (simp add: length_entries)
  have rd: "array_read (m_textureIDs s) i = Inr (entries s ! nat i)"
    using lt Suc.prems inr by (auto simp: array_read_def well_formed_def entries_nth)
  have ne: "TEXTURE_INFO.tag (entries s ! nat i) \<noteq> t"
    using Suc.prems(6) ik by blast
  have step: "FindTextureID_loop s t tid (i + 1) False = Inr (sint (ID (entries s ! k)))"
  proof (rule Suc.hyps(1))
    show "n = k - nat (i + 1)" using Suc.hyps(2) Suc.prems(2) by linarith
    show "nat (i + 1) \<le> k" using ik Suc.prems(2) by linarith
    show "\<forall>j. nat (i + 1) \<le> j \<and> j < k \<longrightarrow> TEXTURE_INFO.tag (entries s ! j) \<noteq> t"
      using Suc.prems(2,6) by (auto simp: nat_add_distrib)
  qed (use Suc.prems in auto)
  show ?case
    by (subst FindTextureID_loop.simps) (simp add: lt rd ne step)
qed


lemma FindMaterial_loop_miss:
  assumes "\<forall>j. i \<le> j \<and> j < length ms \<longrightarrow> OBJECT_MATERIAL.tag (ms ! j) \<noteq> t"
  shows "FindMaterial_loop ms t i False m = (False, m)"
  using assms
proof (induction "length ms - i" arbitrary: i)
  case 0
  then show ?case by (simp add: FindMaterial_loop.simps)
next
  case (Suc n)
  then have lt: "i < length ms" by linarith
  have ne: "OBJECT_MATERIAL.tag (ms ! i) \<noteq> t" using Suc.prems lt by blast
  have step: "FindMaterial_loop ms t (Suc i) False m = (False, m)"
    by (rule Suc.hyps(1)) (use Suc.hyps(2) Suc.prems in auto)
  show ?case
    by (subst FindMaterial_loop.simps) (simp add: lt ne step)
qed

lemma FindMaterial_loop_hit:
  assumes "i \<le> k" and "k < length ms" and "OBJECT_MATERIAL.tag (ms ! k) = t"
    and "\<forall>j. i \<le> j \<and> j < k \<longrightarrow> OBJECT_MATERIAL.tag (ms ! j) \<noteq> t"
  shows "FindMaterial_loop ms t i False m = (True, copy_material (ms ! k) m)"
  using assms
proof (induction "k - i" arbitrary: i)
  case 0
  then have ik: "i = k" by simp
  have fin: "FindMaterial_loop ms t k True (copy_material (ms ! k) m)
                = (True, copy_material (ms ! k) m)"
    by (simp add: FindMaterial_loop.simps)
  show ?case unfolding ik
    by (subst FindMaterial_loop.simps) (use 0 fin in \<open>simp add: copy_material_def\<close>)
next
  case (Suc n)
  then have lt: "i < k" by linarith
  have ne: "OBJECT_MATERIAL.tag (ms ! i) \<noteq> t" using Suc.prems lt by blast
  have step: "FindMaterial_loop ms t (Suc i) False m = (True, copy_material (ms ! k) m)"
    by (rule Suc.hyps(1)) (use Suc.hyps(2) Suc.prems lt in auto)
  show ?case
    by (subst FindMaterial_loop.simps) (use lt Suc.prems ne step in simp)
qed

lemma notin_take_nth: "t \<notin> set (take n xs) \<Longrightarrow> j < n \<Longrightarrow> j < length xs \<Longrightarrow> xs ! j \<noteq> t"
  by (metis in_set_conv_nth length_take min_less_iff_conj nth_take)

lemma notin_set_nth: "t \<notin> set xs \<Longrightarrow> j < length xs \<Longrightarrow> xs ! j \<noteq> t"
  by auto

lemma FindTextureSlot_miss:
  assumes "well_formed s" and "t \<notin> set (texture_tags s)"
  shows "FindTextureSlot s t = Inr (- 1)"
  unfolding FindTextureSlot_def
proof (rule FindTextureSlot_loop_miss)
  show "\<forall>j. nat 0 \<le> j \<and> j < length (entries s) \<longrightarrow> TEXTURE_INFO.tag (entries s ! j) \<noteq> t"
    using assms(2) by (auto simp: texture_tags_def)
qed (use assms in auto)

lemma FindTextureID_miss:
  assumes "well_formed s" and "t \<notin> set (texture_tags s)"
  shows "FindTextureID s t = Inr (- 1)"
  unfolding FindTextureID_def
proof (rule FindTextureID_loop_miss)
  show "\<forall>j. nat 0 \<le> j \<and> j < length (entries s) \<longrightarrow> TEXTURE_INFO.tag (entries s ! j) \<noteq> t"
    using assms(2) by (auto simp: texture_tags_def)
qed (use assms in auto)

lemma FindTextureSlot_hit:
  assumes "well_formed s" and "n < length (texture_tags s)" and "texture_tags s ! n = t"
    and "t \<notin> set (take n (texture_tags s))"
  shows "FindTextureSlot s t = Inr (int n)"
  unfolding FindTextureSlot_def
proof (rule FindTextureSlot_loop_hit)
  show "\<forall>j. nat 0 \<le> j \<and> j < n \<longrightarrow> TEXTURE_INFO.tag (entries s ! j) \<noteq> t"
    using notin_take_nth [OF assms(4)] assms(2) by (auto simp: texture_tags_def)
qed (use assms in \<open>auto simp: texture_tags_def\<close>)

lemma FindTextureID_hit:
  assumes "well_formed s" and "n < length (texture_tags s)" and "texture_tags s ! n = t"
    and "t \<notin> set (take n (texture_tags s))"
  shows "FindTextureID s t = Inr (sint (ID (entries s ! n)))"
  unfolding FindTextureID_def
proof (rule FindTextureID_loop_hit)
  show "\<forall>j. nat 0 \<le> j \<and> j < n \<longrightarrow> TEXTURE_INFO.tag (entries s ! j) \<noteq> t"
    using notin_take_nth [OF assms(4)] assms(2) by (auto simp: texture_tags_def)
qed (use assms in \<open>auto simp: texture_tags_def\<close>)

lemma FindMaterial_miss:
  assumes "t \<notin> set (material_tags s)"
  shows "FindMaterial s t m = (m_objectMaterials s \<noteq> [], m)"
proof -
  have "FindMaterial_loop (m_objectMaterials s) t 0 False m = (False, m)"
    using assms by (intro FindMaterial_loop_miss) (auto simp: material_tags_def)
  then show ?thesis by (simp add: FindMaterial_def)
qed

lemma FindMaterial_hit:
  assumes "k < length (material_tags s)" and "material_tags s ! k = t"
    and "t \<notin> set (take k (material_tags s))"
  shows "FindMaterial s t m = (True, copy_material (m_objectMaterials s ! k) m)"
proof -
  have "FindMaterial_loop (m_objectMaterials s) t 0 False m
          = (True, copy_material (m_objectMaterials s ! k) m)"
  proof (rule FindMaterial_loop_hit)
    show "\<forall>j. 0 \<le> j \<and> j < k \<longrightarrow> OBJECT_MATERIAL.tag (m_objectMaterials s ! j) \<noteq> t"
      using notin_take_nth [OF assms(3)] assms(1) by (auto simp: material_tags_def)
  qed (use assms in \<open>auto simp: material_tags_def\<close>)
  moreover have "m_objectMaterials s \<noteq> []" using assms(1) by (auto simp: material_tags_def)
  ultimately show ?thesis by (simp add: FindMaterial_def)
qed

section \<open>Facts about the example states\<close>

lemma material_tags_Define:
  "material_tags (DefineObjectMaterials u1 u2 u3 u4 s)
     = material_tags s @ [''clay'', ''wood'', ''glass'', []]"
  by (simp add: DefineObjectMaterials_def material_tags_def push_back_def declared_def)

lemma material_tags_scene_mat: "material_tags scene_mat = [''clay'', ''wood'', ''glass'', []]"
  by (simp add: scene_mat_def material_tags_Define) (simp add: material_tags_def scene0_def)

lemma well_formed_scene3: "well_formed scene3"
  by (simp add: well_formed_def scene3_def)

lemma entries_scene3:
  "entries scene3 = [\<lparr>ID = 1, tag = ''floor''\<rparr>, \<lparr>ID = 2, tag = ''wall''\<rparr>, \<lparr>ID = 3, tag = ''wall''\<rparr>]"
  by (simp add: entries_def scene3_def)

lemma texture_tags_scene3: "texture_tags scene3 = [''floor'', ''wall'', ''wall'']"
  by (simp add: texture_tags_def entries_scene3)

lemma material_tags_scene3: "material_tags scene3 = [''wood'', ''wood'']"
  by (simp add: material_tags_def scene3_def)

section \<open>Claims about the lookups\<close>

text \<open>
  C2. The claim: \<open>FindMaterial\<close> returns false exactly when no entry of the registry has
  the tag, and when it returns true the out-parameter holds the values of the matched
  entry. The code computes the flag \<open>bFound\<close> and then returns \<open>true\<close> whatever the flag.
  On the registry of \<open>DefineObjectMaterials\<close>, which has no entry tagged
  \<open>nonexistent\<close>, the call returns true and leaves the out-parameter as the caller
  passed it.
\<close>

theorem FindMaterial_true_without_match:
  "''nonexistent'' \<notin> set (material_tags scene_mat)
     \<and> FindMaterial scene_mat ''nonexistent'' junk = (True, junk)"
proof -
  have a: "''nonexistent'' \<notin> set (material_tags scene_mat)"
    by (simp add: material_tags_scene_mat)
  have b: "m_objectMaterials scene_mat \<noteq> []"
    using material_tags_scene_mat by (auto simp: material_tags_def)
  show ?thesis using a b by (simp add: FindMaterial_miss)
qed

text \<open>
  C5. For a tag that no registered texture bears, both lookups return the sentinel -1
  and \<open>SetShaderTexture\<close> returns normally: with a shader manager it sets the
  use-texture flag to true (the integer 1) and uploads -1 as the sampler; with a \<open>NULL\<close>
  shader manager it does nothing.
\<close>

theorem missing_texture_sentinel:
  assumes "well_formed s" and "t \<notin> set (texture_tags s)"
  shows "FindTextureID s t = Inr (- 1) \<and> FindTextureSlot s t = Inr (- 1)
     \<and> SetShaderTexture t (s\<lparr>m_pShaderManager := Some sh\<rparr>)
         = Inr (s\<lparr>m_pShaderManager := Some (sh\<lparr>uniforms := uniforms sh @
                  [(''bUseTexture'', IntValue 1), (''objectTexture'', Sampler2DValue (- 1))]\<rparr>)\<rparr>)
     \<and> SetShaderTexture t (s\<lparr>m_pShaderManager := None\<rparr>) = Inr (s\<lparr>m_pShaderManager := None\<rparr>)"
proof -
  let ?s = "s\<lparr>m_pShaderManager := Some sh\<rparr>"
  have w: "well_formed ?s" using assms(1) by (simp add: well_formed_def)
  have n: "t \<notin> set (texture_tags ?s)"
    using assms(2) by (simp add: texture_tags_def entries_def)
  have "FindTextureSlot ?s t = Inr (- 1)" by (rule FindTextureSlot_miss [OF w n])
  then have "SetShaderTexture t ?s
         = Inr (s\<lparr>m_pShaderManager := Some (sh\<lparr>uniforms := uniforms sh @
                  [(''bUseTexture'', IntValue 1), (''objectTexture'', Sampler2DValue (- 1))]\<rparr>)\<rparr>)"
    by (simp add: SetShaderTexture_def setValue_def g_UseTextureName_def g_TextureValueName_def)
  moreover have "SetShaderTexture t (s\<lparr>m_pShaderManager := None\<rparr>) = Inr (s\<lparr>m_pShaderManager := None\<rparr>)"
    by (simp add: SetShaderTexture_def)
  ultimately show ?thesis
    using FindTextureID_miss [OF assms] FindTextureSlot_miss [OF assms] by simp
qed

theorem missing_texture_sentinel_witness:
  "well_formed scene3 \<and> ''nonexistent'' \<notin> set (texture_tags scene3)
     \<and> FindTextureID scene3 ''nonexistent'' = Inr (- 1)
     \<and> FindTextureSlot scene3 ''nonexistent'' = Inr (- 1)
     \<and> SetShaderTexture ''nonexistent'' (scene3\<lparr>m_pShaderManager := Some \<lparr>uniforms = []\<rparr>\<rparr>)
         = Inr (scene3\<lparr>m_pShaderManager := Some \<lparr>uniforms =
                  [(''bUseTexture'', IntValue 1), (''objectTexture'', Sampler2DValue (- 1))]\<rparr>\<rparr>)"
proof -
  have n: "''nonexistent'' \<notin> set (texture_tags scene3)"
    by (simp add: texture_tags_scene3)
  show ?thesis
    using missing_texture_sentinel [OF well_formed_scene3 n, of "\<lparr>uniforms = []\<rparr>"] n
    by (simp add: well_formed_scene3)
qed

text \<open>
  C6. First match wins. The registered textures are the array elements in the order
  they were loaded, the materials the vector elements in the order they were pushed.
  If the tag \<open>t\<close> stands at position \<open>n\<close> of the texture tags and at no earlier position,
  \<open>FindTextureSlot\<close> returns \<open>n\<close> and \<open>FindTextureID\<close> the handle of entry \<open>n\<close>, whatever
  comes after; likewise \<open>FindMaterial\<close> copies the values of the first material
  tagged \<open>t'\<close>.
\<close>

theorem lookup_first_match:
  assumes "well_formed s"
  shows "(n < length (texture_tags s) \<and> texture_tags s ! n = t \<and> t \<notin> set (take n (texture_tags s))
            \<longrightarrow> FindTextureSlot s t = Inr (int n)
              \<and> FindTextureID s t = Inr (sint (ID (entries s ! n))))
       \<and> (k < length (material_tags s) \<and> material_tags s ! k = t'
              \<and> t' \<notin> set (take k (material_tags s))
            \<longrightarrow> FindMaterial s t' m = (True, copy_material (m_objectMaterials s ! k) m))"
  using assms FindTextureSlot_hit FindTextureID_hit FindMaterial_hit by blast

theorem lookup_first_match_witness:
  "well_formed scene3 \<and> texture_tags scene3 = [''floor'', ''wall'', ''wall'']
     \<and> material_tags scene3 = [''wood'', ''wood'']
     \<and> FindTextureSlot scene3 ''wall'' = Inr 1
     \<and> FindTextureID scene3 ''wall'' = Inr 2
     \<and> FindMaterial scene3 ''wood'' junk
         = (True, junk\<lparr>diffuseColor := vec3 1 2 3, specularColor := vec3 4 5 6, shininess := 7\<rparr>)"
  using lookup_first_match [OF well_formed_scene3, of 1 "''wall''" 0 "''wood''" junk]
  by (simp add: texture_tags_scene3 material_tags_scene3 well_formed_scene3 entries_scene3
        copy_material_def)
     (simp add: scene3_def)

section \<open>Claims about materials\<close>

lemma SetShaderMaterial_without_match:
  assumes "m_objectMaterials s \<noteq> []" and "t \<notin> set (material_tags s)"
    and "m_pShaderManager s = Some sh"
  shows "SetShaderMaterial u t s
     = Inr (s\<lparr>m_pShaderManager := Some (sh\<lparr>uniforms := uniforms sh @
                [(''material.diffuseColor'', Vec3Value (diffuseColor u)),
                 (''material.specularColor'', Vec3Value (specularColor u)),
                 (''material.shininess'', FloatValue (shininess u))]\<rparr>)\<rparr>)"
  using assms by (simp add: SetShaderMaterial_def FindMaterial_miss setValue_def declared_def)

lemma SetShaderMaterial_with_match:
  assumes "k < length (material_tags s)" and "material_tags s ! k = t"
    and "t \<notin> set (take k (material_tags s))" and "m_pShaderManager s = Some sh"
  shows "SetShaderMaterial u t s
     = Inr (s\<lparr>m_pShaderManager := Some (sh\<lparr>uniforms := uniforms sh @
                [(''material.diffuseColor'', Vec3Value (diffuseColor (m_objectMaterials s ! k))),
                 (''material.specularColor'', Vec3Value (specularColor (m_objectMaterials s ! k))),
                 (''material.shininess'', FloatValue (shininess (m_objectMaterials s ! k)))]\<rparr>)\<rparr>)"
proof -
  have "m_objectMaterials s \<noteq> []" using assms(1) by (auto simp: material_tags_def)
  then show ?thesis
    using assms(4) FindMaterial_hit [OF assms(1,2,3), of "declared u"]
    by (simp add: SetShaderMaterial_def setValue_def copy_material_def)
qed

lemma scene_mat_wood:
  "m_objectMaterials scene_mat ! Suc 0
     = junk\<lparr>OBJECT_MATERIAL.tag := ''wood'', diffuseColor := vec3 0.2 0.2 0.3,
            specularColor := vec3 0 0 0, shininess := 0.1\<rparr>"
  by (simp add: scene_mat_def DefineObjectMaterials_def push_back_def declared_def scene0_def
        junk_def)

text \<open>
  C1. The claim: after a successful \<open>SetShaderMaterial\<close> with a defined tag, a call
  with a tag no entry bears leaves the three material uniforms at the values uploaded
  before, with no new upload. In the code \<open>FindMaterial\<close> reports true on the non-empty
  registry, so the second call uploads three values again, those of its uninitialised
  local (here \<open>junk\<close>): the shininess uniform goes from the 0.1 of wood to 21.
\<close>

theorem SetShaderMaterial_uploads_without_match:
  "\<exists>s1 sh1 s2 sh2.
     SetShaderMaterial junk ''wood'' scene_mat = Inr s1 \<and> m_pShaderManager s1 = Some sh1
     \<and> uniform sh1 ''material.shininess'' = Some (FloatValue 0.1)
     \<and> ''nonexistent'' \<notin> set (material_tags s1)
     \<and> SetShaderMaterial junk ''nonexistent'' s1 = Inr s2 \<and> m_pShaderManager s2 = Some sh2
     \<and> uniforms sh2 = uniforms sh1 @
          [(''material.diffuseColor'', Vec3Value (vec3 15 16 17)),
           (''material.specularColor'', Vec3Value (vec3 18 19 20)),
           (''material.shininess'', FloatValue 21)]
     \<and> uniform sh2 ''material.shininess'' = Some (FloatValue 21)"
proof -
  define sh1 where "sh1 = \<lparr>uniforms =
      [(''material.diffuseColor'', Vec3Value (vec3 0.2 0.2 0.3)),
       (''material.specularColor'', Vec3Value (vec3 0 0 0)),
       (''material.shininess'', FloatValue 0.1)]\<rparr>"
  define s1 where "s1 = scene_mat\<lparr>m_pShaderManager := Some sh1\<rparr>"
  define sh2 where "sh2 = sh1\<lparr>uniforms := uniforms sh1 @
      [(''material.diffuseColor'', Vec3Value (vec3 15 16 17)),
       (''material.specularColor'', Vec3Value (vec3 18 19 20)),
       (''material.shininess'', FloatValue 21)]\<rparr>"
  define s2 where "s2 = s1\<lparr>m_pShaderManager := Some sh2\<rparr>"
  have p: "m_pShaderManager scene_mat = Some \<lparr>uniforms = []\<rparr>"
    by (simp add: scene_mat_def DefineObjectMaterials_def push_back_def scene0_def)
  have a: "SetShaderMaterial junk ''wood'' scene_mat = Inr s1"
    using SetShaderMaterial_with_match [of 1 scene_mat "''wood''" "\<lparr>uniforms = []\<rparr>" junk] p
    by (simp add: material_tags_scene_mat scene_mat_wood s1_def sh1_def)
  have t: "material_tags s1 = [''clay'', ''wood'', ''glass'', []]"
    using material_tags_scene_mat by (simp add: s1_def material_tags_def)
  have ne: "m_objectMaterials s1 \<noteq> []" using t by (auto simp: material_tags_def)
  have b: "SetShaderMaterial junk ''nonexistent'' s1 = Inr s2"
    using SetShaderMaterial_without_match [of s1 "''nonexistent''" sh1 junk] ne
    by (simp add: t) (simp add: s1_def s2_def sh2_def junk_def)
  have c: "uniform sh1 ''material.shininess'' = Some (FloatValue 0.1)"
    by (simp add: uniform_def sh1_def)
  have d: "uniform sh2 ''material.shininess'' = Some (FloatValue 21)"
    by (simp add: uniform_def sh2_def)
  have e: "m_pShaderManager s1 = Some sh1" "m_pShaderManager s2 = Some sh2"
    by (simp_all add: s1_def s2_def)
  have f: "uniforms sh2 = uniforms sh1 @
          [(''material.diffuseColor'', Vec3Value (vec3 15 16 17)),
           (''material.specularColor'', Vec3Value (vec3 18 19 20)),
           (''material.shininess'', FloatValue 21)]"
    by (simp add: sh2_def)
  show ?thesis using a b c d e f t by (intro exI [of _ s1] exI [of _ sh1] exI [of _ s2] exI [of _ sh2]) simp
qed

text \<open>
  C8. On an empty registry \<open>DefineObjectMaterials\<close> leaves exactly four entries, tagged
  clay, wood, glass and the empty string, in that order. No entry is tagged cloth: the
  cloth values go to the local \<open>glassMaterial\<close> after its copy was pushed, and the
  fourth entry is the local \<open>clothMaterial\<close> as declared. \<open>FindMaterial\<close> with the tag
  cloth therefore matches no entry (the out-parameter keeps its content), and the glass
  entry holds the glass values.
\<close>

theorem DefineObjectMaterials_registry:
  "material_tags (DefineObjectMaterials u1 u2 u3 u4 (s\<lparr>m_objectMaterials := []\<rparr>))
       = [''clay'', ''wood'', ''glass'', []]
     \<and> length (m_objectMaterials (DefineObjectMaterials u1 u2 u3 u4 (s\<lparr>m_objectMaterials := []\<rparr>))) = 4
     \<and> ''cloth'' \<notin> set (material_tags (DefineObjectMaterials u1 u2 u3 u4 (s\<lparr>m_objectMaterials := []\<rparr>)))
     \<and> m_objectMaterials (DefineObjectMaterials u1 u2 u3 u4 (s\<lparr>m_objectMaterials := []\<rparr>)) ! 3
          = declared u4
     \<and> snd (FindMaterial (DefineObjectMaterials u1 u2 u3 u4 (s\<lparr>m_objectMaterials := []\<rparr>)) ''cloth'' m) = m
     \<and> diffuseColor (m_objectMaterials (DefineObjectMaterials u1 u2 u3 u4 (s\<lparr>m_objectMaterials := []\<rparr>)) ! 2)
          = vec3 0.2 0.2 0.2
     \<and> specularColor (m_objectMaterials (DefineObjectMaterials u1 u2 u3 u4 (s\<lparr>m_objectMaterials := []\<rparr>)) ! 2)
          = vec3 1 1 1
     \<and> shininess (m_objectMaterials (DefineObjectMaterials u1 u2 u3 u4 (s\<lparr>m_objectMaterials := []\<rparr>)) ! 2)
          = 95
     \<and> FindMaterial (DefineObjectMaterials u1 u2 u3 u4 (s\<lparr>m_objectMaterials := []\<rparr>)) ''glass'' m
          = (True, m\<lparr>diffuseColor := vec3 0.2 0.2 0.2, specularColor := vec3 1 1 1,
                     shininess := 95\<rparr>)"
proof -
  let ?s = "DefineObjectMaterials u1 u2 u3 u4 (s\<lparr>m_objectMaterials := []\<rparr>)"
  have t: "material_tags ?s = [''clay'', ''wood'', ''glass'', []]"
    by (simp add: material_tags_Define) (simp add: material_tags_def)
  have m: "m_objectMaterials ?s =
     [declared u1\<lparr>ambientColor := vec3 0.2 0.2 0.3, ambientStrength := 0.3,
                  diffuseColor := vec3 0.4 0.4 0.5, specularColor := vec3 0.2 0.2 0.4,
                  shininess := 0.5, OBJECT_MATERIAL.tag := ''clay''\<rparr>,
      declared u2\<lparr>diffuseColor := vec3 0.2 0.2 0.3, specularColor := vec3 0 0 0,
                  shininess := 0.1, OBJECT_MATERIAL.tag := ''wood''\<rparr>,
      declared u3\<lparr>diffuseColor := vec3 0.2 0.2 0.2, specularColor := vec3 1 1 1,
                  shininess := 95, OBJECT_MATERIAL.tag := ''glass''\<rparr>,
      declared u4]"
    by (simp add: DefineObjectMaterials_def push_back_def)
  have c: "snd (FindMaterial ?s ''cloth'' m) = m"
    by (subst FindMaterial_miss) (simp_all add: t)
  have g: "FindMaterial ?s ''glass'' m
          = (True, m\<lparr>diffuseColor := vec3 0.2 0.2 0.2, specularColor := vec3 1 1 1,
                     shininess := 95\<rparr>)"
    using FindMaterial_hit [of 2 ?s "''glass''" m]
    by (simp add: t) (simp add: m copy_material_def)
  show ?thesis using c g by (simp add: t) (simp add: m)
qed

section \<open>The transform composer\<close>

lemma glm_scale_eq: "glm_scale v = Scale v"
  by (simp add: glm_scale_def glm_scale_m_def identity_def Scale_def smult_def)

lemma glm_translate_eq: "glm_translate v = Translate v"
  by (simp add: glm_translate_def glm_translate_m_def identity_def Translate_def smult_def
        vadd_def)

lemma glm_rotate_x: "glm_rotate a (vec3 1 0 0) = RotateX a"
  by (simp add: glm_rotate_def glm_rotate_m_def glm_normalize_def identity_def RotateX_def
        smult_def vadd_def Let_def)

lemma glm_rotate_y: "glm_rotate a (vec3 0 1 0) = RotateY a"
  by (simp add: glm_rotate_def glm_rotate_m_def glm_normalize_def identity_def RotateY_def
        smult_def vadd_def Let_def)

lemma glm_rotate_z: "glm_rotate a (vec3 0 0 1) = RotateZ a"
  by (simp add: glm_rotate_def glm_rotate_m_def glm_normalize_def identity_def RotateZ_def
        smult_def vadd_def Let_def)

lemma mat_vec_times: "mat_vec (a * b) v = mat_vec a (mat_vec b v)"
  by (simp add: times_mat4_def mat_vec_def vadd_def smult_def algebra_simps)

lemma modelView_eq:
  "glm_translate p * glm_rotate (glm_radians zr) (vec3 0 0 1)
       * glm_rotate (glm_radians yr) (vec3 0 1 0) * glm_rotate (glm_radians xr) (vec3 1 0 0)
       * glm_scale sc
     = Translate p * RotateZ (zr * (pi / 180)) * RotateY (yr * (pi / 180))
         * RotateX (xr * (pi / 180)) * Scale sc"
  by (simp only: glm_scale_eq glm_translate_eq glm_rotate_x glm_rotate_y glm_rotate_z
        glm_radians_def)

lemma modelView_entries:
  "Translate p * RotateZ c * RotateY b * RotateX a * Scale k = model_matrix k a b c p"
  by (simp add: times_mat4_def mat_vec_def vadd_def smult_def Translate_def RotateX_def
        RotateY_def RotateZ_def Scale_def model_matrix_def algebra_simps)

lemma apply_model_matrix:
  "apply_point (model_matrix k a b c d) q
     = translate_point d (rotate_z_point c (rotate_y_point b (rotate_x_point a (scale_point k q))))"
  by (simp add: apply_point_def model_matrix_def translate_point_def rotate_x_point_def
        rotate_y_point_def rotate_z_point_def scale_point_def algebra_simps)

text \<open>
  C3. With a shader manager, \<open>SetTransformations\<close> makes one upload, under the name
  \<open>model\<close>. The uploaded matrix is given here entry by entry, in the sines and cosines of
  the three angles multiplied by pi/180: column 0 is
  \<open>sx (cos c cos b, sin c cos b, - sin b, 0)\<close>, column 1 is
  \<open>sy (cos c sin b sin a - sin c cos a, sin c sin b sin a + cos c cos a, cos b sin a, 0)\<close>,
  column 2 is
  \<open>sz (cos c sin b cos a + sin c sin a, sin c sin b cos a - cos c sin a, cos b cos a, 0)\<close>
  and column 3 is the translation with a final 1, where \<open>a\<close>, \<open>b\<close>, \<open>c\<close> are the angles
  about X, Y, Z in radians and \<open>(sx, sy, sz)\<close> the scale. This matrix sends every point
  to the one obtained by scaling it first, rotating it about X, then about Y, then
  about Z, and translating it last; it is the product
  Translate * RotateZ * RotateY * RotateX * Scale. Without a shader manager nothing is
  uploaded.
\<close>

theorem SetTransformations_model_matrix:
  "SetTransformations sc xr yr zr p (s\<lparr>m_pShaderManager := Some sh\<rparr>)
       = s\<lparr>m_pShaderManager := Some (sh\<lparr>uniforms := uniforms sh @
             [(''model'', Mat4Value
                (mat4
                  (vec4 (vx sc * (cos (zr * (pi / 180)) * cos (yr * (pi / 180))))
                        (vx sc * (sin (zr * (pi / 180)) * cos (yr * (pi / 180))))
                        (vx sc * (- sin (yr * (pi / 180)))) 0)
                  (vec4 (vy sc * (cos (zr * (pi / 180)) * sin (yr * (pi / 180))
                                    * sin (xr * (pi / 180))
                                  - sin (zr * (pi / 180)) * cos (xr * (pi / 180))))
                        (vy sc * (sin (zr * (pi / 180)) * sin (yr * (pi / 180))
                                    * sin (xr * (pi / 180))
                                  + cos (zr * (pi / 180)) * cos (xr * (pi / 180))))
                        (vy sc * (cos (yr * (pi / 180)) * sin (xr * (pi / 180)))) 0)
                  (vec4 (vz sc * (cos (zr * (pi / 180)) * sin (yr * (pi / 180))
                                    * cos (xr * (pi / 180))
                                  + sin (zr * (pi / 180)) * sin (xr * (pi / 180))))
                        (vz sc * (sin (zr * (pi / 180)) * sin (yr * (pi / 180))
                                    * cos (xr * (pi / 180))
                                  - cos (zr * (pi / 180)) * sin (xr * (pi / 180))))
                        (vz sc * (cos (yr * (pi / 180)) * cos (xr * (pi / 180)))) 0)
                  (vec4 (vx p) (vy p) (vz p) 1)))]\<rparr>)\<rparr>
     \<and> SetTransformations sc xr yr zr p (s\<lparr>m_pShaderManager := Some sh\<rparr>)
         = s\<lparr>m_pShaderManager := Some (sh\<lparr>uniforms := uniforms sh @
             [(''model'', Mat4Value
                (model_matrix sc (xr * (pi / 180)) (yr * (pi / 180)) (zr * (pi / 180)) p))]\<rparr>)\<rparr>
     \<and> apply_point (model_matrix sc (xr * (pi / 180)) (yr * (pi / 180)) (zr * (pi / 180)) p) q
         = translate_point p (rotate_z_point (zr * (pi / 180)) (rotate_y_point (yr * (pi / 180))
             (rotate_x_point (xr * (pi / 180)) (scale_point sc q))))
     \<and> model_matrix sc (xr * (pi / 180)) (yr * (pi / 180)) (zr * (pi / 180)) p
         = Translate p * RotateZ (zr * (pi / 180)) * RotateY (yr * (pi / 180))
             * RotateX (xr * (pi / 180)) * Scale sc
     \<and> SetTransformations sc xr yr zr p (s\<lparr>m_pShaderManager := None\<rparr>)
         = s\<lparr>m_pShaderManager := None\<rparr>"
proof -
  have u: "SetTransformations sc xr yr zr p (s\<lparr>m_pShaderManager := Some sh\<rparr>)
         = s\<lparr>m_pShaderManager := Some (sh\<lparr>uniforms := uniforms sh @
             [(''model'', Mat4Value
                (model_matrix sc (xr * (pi / 180)) (yr * (pi / 180)) (zr * (pi / 180)) p))]\<rparr>)\<rparr>"
    unfolding SetTransformations_def Let_def modelView_eq modelView_entries
    by (simp add: setValue_def g_ModelName_def)
  have n: "SetTransformations sc xr yr zr p (s\<lparr>m_pShaderManager := None\<rparr>)
         = s\<lparr>m_pShaderManager := None\<rparr>"
    by (simp add: SetTransformations_def Let_def)
  have e: "SetTransformations sc xr yr zr p (s\<lparr>m_pShaderManager := Some sh\<rparr>)
       = s\<lparr>m_pShaderManager := Some (sh\<lparr>uniforms := uniforms sh @
             [(''model'', Mat4Value
                (mat4
                  (vec4 (vx sc * (cos (zr * (pi / 180)) * cos (yr * (pi / 180))))
                        (vx sc * (sin (zr * (pi / 180)) * cos (yr * (pi / 180))))
                        (vx sc * (- sin (yr * (pi / 180)))) 0)
                  (vec4 (vy sc * (cos (zr * (pi / 180)) * sin (yr * (pi / 180))
                                    * sin (xr * (pi / 180))
                                  - sin (zr * (pi / 180)) * cos (xr * (pi / 180))))
                        (vy sc * (sin (zr * (pi / 180)) * sin (yr * (pi / 180))
                                    * sin (xr * (pi / 180))
                                  + cos (zr * (pi / 180)) * cos (xr * (pi / 180))))
                        (vy sc * (cos (yr * (pi / 180)) * sin (xr * (pi / 180)))) 0)
                  (vec4 (vz sc * (cos (zr * (pi / 180)) * sin (yr * (pi / 180))
                                    * cos (xr * (pi / 180))
                                  + sin (zr * (pi / 180)) * sin (xr * (pi / 180))))
                        (vz sc * (sin (zr * (pi / 180)) * sin (yr * (pi / 180))
                                    * cos (xr * (pi / 180))
                                  - cos (zr * (pi / 180)) * sin (xr * (pi / 180))))
                        (vz sc * (cos (yr * (pi / 180)) * cos (xr * (pi / 180)))) 0)
                  (vec4 (vx p) (vy p) (vz p) 1)))]\<rparr>)\<rparr>"
    unfolding u model_matrix_def ..
  show ?thesis
    by (intro conjI) (rule e, rule u, rule apply_model_matrix, rule modelView_entries [symmetric],
        rule n)
qed

text \<open>
  The example of the specification: scale (2,1,1), 90 degrees about Y, translation
  (5,0,0). The uploaded matrix has the columns (0,0,-2,0), (0,1,0,0), (1,0,0,0) and
  (5,0,0,1); the point (1,0,0) is scaled to (2,0,0), turned to (0,0,-2) and moved to
  (5,0,-2).
\<close>

theorem SetTransformations_model_matrix_witness:
  "SetTransformations (vec3 2 1 1) 0 90 0 (vec3 5 0 0)
       (scene0\<lparr>m_pShaderManager := Some \<lparr>uniforms = []\<rparr>\<rparr>)
     = scene0\<lparr>m_pShaderManager := Some \<lparr>uniforms =
         [(''model'', Mat4Value (mat4 (vec4 0 0 (- 2) 0) (vec4 0 1 0 0) (vec4 1 0 0 0)
                                      (vec4 5 0 0 1)))]\<rparr>\<rparr>
   \<and> apply_point (mat4 (vec4 0 0 (- 2) 0) (vec4 0 1 0 0) (vec4 1 0 0 0) (vec4 5 0 0 1))
         (vec3 1 0 0) = vec3 5 0 (- 2)
   \<and> translate_point (vec3 5 0 0) (rotate_z_point 0 (rotate_y_point (pi / 2)
         (rotate_x_point 0 (scale_point (vec3 2 1 1) (vec3 1 0 0))))) = vec3 5 0 (- 2)"
proof -
  have a: "apply_point (mat4 (vec4 0 0 (- 2) 0) (vec4 0 1 0 0) (vec4 1 0 0 0) (vec4 5 0 0 1))
         (vec3 1 0 0) = vec3 5 0 (- 2)"
    by (simp add: apply_point_def)
  have b: "translate_point (vec3 5 0 0) (rotate_z_point 0 (rotate_y_point (pi / 2)
         (rotate_x_point 0 (scale_point (vec3 2 1 1) (vec3 1 0 0))))) = vec3 5 0 (- 2)"
    by (simp add: translate_point_def rotate_x_point_def rotate_y_point_def rotate_z_point_def
          scale_point_def)
  show ?thesis
    using SetTransformations_model_matrix [where sc = "vec3 2 1 1" and xr = 0 and yr = 90
        and zr = 0 and p = "vec3 5 0 0" and s = scene0 and sh = "\<lparr>uniforms = []\<rparr>"
        and q = "vec3 1 0 0"] a b
    by simp
qed

lemma compose_example:
  "mat_vec (Translate (vec3 5 0 0) * RotateZ (0 * (pi / 180)) * RotateY (90 * (pi / 180))
              * RotateX (0 * (pi / 180)) * Scale (vec3 2 1 1)) (vec4 1 0 0 1)
     = vec4 5 0 (- 2) 1"
  by (simp add: mat_vec_times)
     (simp add: mat_vec_def vadd_def smult_def Translate_def RotateX_def RotateY_def RotateZ_def
        Scale_def)

section \<open>Loading and binding textures\<close>

lemma texture_info_eq: "e\<lparr>ID := a, TEXTURE_INFO.tag := b\<rparr> = \<lparr>ID = a, tag = b\<rparr>"
  by (cases e) simp

lemma take_Suc_update: "n < length xs \<Longrightarrow> take (Suc n) (xs[n := v]) = take n xs @ [v]"
  by (simp add: take_Suc_conv_app_nth)

lemma register_texture_ok:
  assumes "0 \<le> m_loadedTextures s" and "m_loadedTextures s < int (length (m_textureIDs s))"
  shows "register_texture tid t (s, g)
     = Inr (True,
            s\<lparr>m_textureIDs := (m_textureIDs s)[nat (m_loadedTextures s) := \<lparr>ID = tid, tag = t\<rparr>],
              m_loadedTextures := m_loadedTextures s + 1\<rparr>,
            glBindTexture 0 (glCall GenerateMipmap g))"
  using assms
  by (simp add: register_texture_def array_update_def array_read_def array_write_def Let_def
        texture_info_eq)

lemma entries_registered:
  assumes "0 \<le> m_loadedTextures s" and "m_loadedTextures s < int (length (m_textureIDs s))"
  shows "entries (s\<lparr>m_textureIDs := (m_textureIDs s)[nat (m_loadedTextures s) := e],
                    m_loadedTextures := m_loadedTextures s + 1\<rparr>) = entries s @ [e]"
proof -
  have n: "nat (m_loadedTextures s) < length (m_textureIDs s)" using assms by linarith
  have "nat (m_loadedTextures s + 1) = Suc (nat (m_loadedTextures s))" using assms by linarith
  then show ?thesis using take_Suc_update [OF n] by (simp add: entries_def)
qed

lemma CreateGLTexture_ok:
  assumes "stbi_load f = Some img" and "colorChannels img = 3 \<or> colorChannels img = 4"
    and "0 \<le> m_loadedTextures s" and "m_loadedTextures s < int (length (m_textureIDs s))"
  shows "\<exists>g'. CreateGLTexture stbi_load f t (s, g)
     = Inr (True,
            s\<lparr>m_textureIDs := (m_textureIDs s)[nat (m_loadedTextures s) :=
                  \<lparr>ID = of_nat (length (gl_textures g)) + 1, tag = t\<rparr>],
              m_loadedTextures := m_loadedTextures s + 1\<rparr>,
            g')
     \<and> gl_textures g' = gl_textures g @ [of_nat (length (gl_textures g)) + 1]"
  using assms
  by (auto simp: CreateGLTexture_def Let_def glGenTextures_def register_texture_ok
        glBindTexture_def glCall_def)

text \<open>
  C7. \<open>CreateGLTexture\<close> returns false and leaves the scene manager as it was when the
  file does not decode, and when it decodes with a channel count other than 3 and 4.
  When the file decodes with 3 or 4 channels and the counter is inside the array, it
  returns true, the registered entries are the former ones followed by the one entry
  made of the generated handle and the tag, and the counter is one more. (At a full
  array the write is outside the array.)
\<close>

theorem CreateGLTexture_registers:
  "(stbi_load f = None \<longrightarrow> CreateGLTexture stbi_load f t (s, g) = Inr (False, s, g))
   \<and> (stbi_load f = Some img \<and> colorChannels img \<noteq> 3 \<and> colorChannels img \<noteq> 4
        \<longrightarrow> (\<exists>g'. CreateGLTexture stbi_load f t (s, g) = Inr (False, s, g')))
   \<and> (stbi_load f = Some img \<and> (colorChannels img = 3 \<or> colorChannels img = 4)
        \<and> 0 \<le> m_loadedTextures s \<and> m_loadedTextures s < int (length (m_textureIDs s))
        \<longrightarrow> (\<exists>s' g'. CreateGLTexture stbi_load f t (s, g) = Inr (True, s', g')
              \<and> entries s' = entries s @ [\<lparr>ID = fst (glGenTextures g), tag = t\<rparr>]
              \<and> m_loadedTextures s' = m_loadedTextures s + 1
              \<and> length (m_textureIDs s') = length (m_textureIDs s)
              \<and> m_objectMaterials s' = m_objectMaterials s
              \<and> m_pShaderManager s' = m_pShaderManager s
              \<and> m_basicMeshes s' = m_basicMeshes s))"
proof (intro conjI impI)
  assume "stbi_load f = None"
  then show "CreateGLTexture stbi_load f t (s, g) = Inr (False, s, g)"
    by (simp add: CreateGLTexture_def)
next
  assume "stbi_load f = Some img \<and> colorChannels img \<noteq> 3 \<and> colorChannels img \<noteq> 4"
  then show "\<exists>g'. CreateGLTexture stbi_load f t (s, g) = Inr (False, s, g')"
    by (simp add: CreateGLTexture_def Let_def split: prod.splits)
next
  assume a: "stbi_load f = Some img \<and> (colorChannels img = 3 \<or> colorChannels img = 4)
        \<and> 0 \<le> m_loadedTextures s \<and> m_loadedTextures s < int (length (m_textureIDs s))"
  then obtain g' where c: "CreateGLTexture stbi_load f t (s, g)
     = Inr (True,
            s\<lparr>m_textureIDs := (m_textureIDs s)[nat (m_loadedTextures s) :=
                  \<lparr>ID = of_nat (length (gl_textures g)) + 1, tag = t\<rparr>],
              m_loadedTextures := m_loadedTextures s + 1\<rparr>,
            g')"
    using CreateGLTexture_ok [of stbi_load f img s t g] by blast
  have e: "entries (s\<lparr>m_textureIDs := (m_textureIDs s)[nat (m_loadedTextures s) :=
                  \<lparr>ID = of_nat (length (gl_textures g)) + 1, tag = t\<rparr>],
              m_loadedTextures := m_loadedTextures s + 1\<rparr>)
           = entries s @ [\<lparr>ID = fst (glGenTextures g), tag = t\<rparr>]"
    using a by (simp add: entries_registered glGenTextures_def Let_def)
  show "\<exists>s' g'. CreateGLTexture stbi_load f t (s, g) = Inr (True, s', g')
              \<and> entries s' = entries s @ [\<lparr>ID = fst (glGenTextures g), tag = t\<rparr>]
              \<and> m_loadedTextures s' = m_loadedTextures s + 1
              \<and> length (m_textureIDs s') = length (m_textureIDs s)
              \<and> m_objectMaterials s' = m_objectMaterials s
              \<and> m_pShaderManager s' = m_pShaderManager s
              \<and> m_basicMeshes s' = m_basicMeshes s"
    using c e by simp
qed

lemma scene0_facts:
  "m_loadedTextures scene0 = 0" "length (m_textureIDs scene0) = 16" "entries scene0 = []"
  "well_formed scene0"
  by (simp_all add: scene0_def entries_def well_formed_def)

theorem CreateGLTexture_registers_witness:
  "CreateGLTexture (\<lambda>_. None) ''a.jpg'' ''floor'' (scene0, gl0) = Inr (False, scene0, gl0)
   \<and> (\<exists>g'. CreateGLTexture (\<lambda>_. Some grey) ''a.jpg'' ''floor'' (scene0, gl0)
              = Inr (False, scene0, g'))
   \<and> (\<exists>s' g'. CreateGLTexture (\<lambda>_. Some rgb) ''a.jpg'' ''floor'' (scene0, gl0)
              = Inr (True, s', g')
         \<and> entries s' = [\<lparr>ID = 1, tag = ''floor''\<rparr>] \<and> m_loadedTextures s' = 1)"
  using
    CreateGLTexture_registers [where stbi_load = "\<lambda>_. None" and f = "''a.jpg''" and t = "''floor''"
      and s = scene0 and g = gl0 and img = grey]
    CreateGLTexture_registers [where stbi_load = "\<lambda>_. Some grey" and f = "''a.jpg''"
      and t = "''floor''" and s = scene0 and g = gl0 and img = grey]
    CreateGLTexture_registers [where stbi_load = "\<lambda>_. Some rgb" and f = "''a.jpg''"
      and t = "''floor''" and s = scene0 and g = gl0 and img = rgb]
  by (simp add: scene0_facts grey_def rgb_def glGenTextures_def gl0_def) blast

declare BindGLTextures_loop.simps [simp del]

lemma load_ok:
  assumes "decodes stbi_load f"
    and "0 \<le> m_loadedTextures s" and "m_loadedTextures s < int (length (m_textureIDs s))"
  shows "\<exists>g'. load stbi_load f t (s, g)
     = Inr (s\<lparr>m_textureIDs := (m_textureIDs s)[nat (m_loadedTextures s) :=
                  \<lparr>ID = of_nat (length (gl_textures g)) + 1, tag = t\<rparr>],
              m_loadedTextures := m_loadedTextures s + 1\<rparr>,
            g')
     \<and> gl_textures g' = gl_textures g @ [of_nat (length (gl_textures g)) + 1]"
proof -
  obtain img where i: "stbi_load f = Some img" "colorChannels img = 3 \<or> colorChannels img = 4"
    using assms(1) by (auto simp: decodes_def split: option.splits)
  show ?thesis
    using CreateGLTexture_ok [of stbi_load f img s t g] i assms(2,3)
    by (auto simp: load_def)
qed

lemma loads_Cons:
  "loads stbi_load (ft # ls) sg =
     (case load stbi_load (fst ft) (snd ft) sg of Inl e \<Rightarrow> Inl e
      | Inr sg' \<Rightarrow> loads stbi_load ls sg')"
  unfolding loads_def by simp

lemma loads_ok:
  assumes "well_formed s"
    and "m_loadedTextures s + int (length ls) \<le> int (length (m_textureIDs s))"
    and "list_all (decodes stbi_load) (map fst ls)"
  shows "\<exists>s' g' xs. loads stbi_load ls (s, g) = Inr (s', g') \<and> well_formed s'
     \<and> entries s' = entries s @ xs \<and> map TEXTURE_INFO.tag xs = map snd ls
     \<and> gl_textures g' = gl_textures g @ map ID xs
     \<and> m_pShaderManager s' = m_pShaderManager s
     \<and> m_objectMaterials s' = m_objectMaterials s"
  using assms
proof (induction ls arbitrary: s g)
  case Nil
  then show ?case by (simp add: loads_def)
next
  case (Cons ft ls)
  have r: "0 \<le> m_loadedTextures s" "m_loadedTextures s < int (length (m_textureIDs s))"
    using Cons.prems by (auto simp: well_formed_def)
  have d: "decodes stbi_load (fst ft)" using Cons.prems(3) by simp
  define e where "e = \<lparr>ID = of_nat (length (gl_textures g)) + 1, tag = snd ft\<rparr>"
  define s1 where "s1 = s\<lparr>m_textureIDs := (m_textureIDs s)[nat (m_loadedTextures s) := e],
              m_loadedTextures := m_loadedTextures s + 1\<rparr>"
  obtain g1 where l: "load stbi_load (fst ft) (snd ft) (s, g) = Inr (s1, g1)"
    and n: "gl_textures g1 = gl_textures g @ [ID e]"
    using load_ok [OF d r, of "snd ft" g] by (auto simp: s1_def e_def)
  have e1: "entries s1 = entries s @ [e]"
    unfolding s1_def by (rule entries_registered [OF r])
  have w1: "well_formed s1" using r by (simp add: s1_def well_formed_def)
  have c1: "m_loadedTextures s1 + int (length ls) \<le> int (length (m_textureIDs s1))"
    using Cons.prems(2) by (simp add: s1_def)
  have a1: "list_all (decodes stbi_load) (map fst ls)" using Cons.prems(3) by simp
  obtain s' g' xs where ih: "loads stbi_load ls (s1, g1) = Inr (s', g')" "well_formed s'"
      "entries s' = entries s1 @ xs" "map TEXTURE_INFO.tag xs = map snd ls"
      "gl_textures g' = gl_textures g1 @ map ID xs"
      "m_pShaderManager s' = m_pShaderManager s1" "m_objectMaterials s' = m_objectMaterials s1"
    using Cons.IH [OF w1 c1 a1, of g1] by blast
  have "loads stbi_load (ft # ls) (s, g) = Inr (s', g')"
    by (simp add: loads_Cons l ih(1))
  moreover have "entries s' = entries s @ (e # xs)" by (simp add: ih(3) e1)
  moreover have "map TEXTURE_INFO.tag (e # xs) = map snd (ft # ls)" by (simp add: ih(4) e_def)
  moreover have "gl_textures g' = gl_textures g @ map ID (e # xs)" by (simp add: ih(5) n)
  moreover have "m_pShaderManager s' = m_pShaderManager s" "m_objectMaterials s' = m_objectMaterials s"
    by (simp_all add: ih(6,7) s1_def)
  ultimately show ?case using ih(2) by blast
qed

lemma BindGLTextures_loop_ok:
  assumes "well_formed s" and "0 \<le> i" and "i \<le> m_loadedTextures s"
  shows "\<exists>g'. BindGLTextures_loop s i g = Inr g'
     \<and> (\<forall>n. nat i \<le> n \<and> n < length (entries s) \<longrightarrow> gl_units g' n = ID (entries s ! n))
     \<and> (\<forall>n. n < nat i \<longrightarrow> gl_units g' n = gl_units g n)
     \<and> gl_textures g' = gl_textures g"
  using assms
proof (induction "nat (m_loadedTextures s - i)" arbitrary: i g)
  case 0
  then have "i = m_loadedTextures s" by simp
  then show ?case using 0 by (auto simp: BindGLTextures_loop.simps length_entries)
next
  case (Suc k)
  then have lt: "i < m_loadedTextures s" by linarith
  have inr: "nat i < length (entries s)" using lt Suc.prems by (simp add: length_entries)
  have rd: "array_read (m_textureIDs s) i = Inr (entries s ! nat i)"
    using lt Suc.prems inr by (auto simp: array_read_def well_formed_def entries_nth)
  define g2 where "g2 = glBindTexture (ID (entries s ! nat i)) (glActiveTexture (nat i) g)"
  have u2: "gl_units g2 = (gl_units g)(nat i := ID (entries s ! nat i))"
    and t2: "gl_textures g2 = gl_textures g"
    by (simp_all add: g2_def glBindTexture_def glActiveTexture_def)
  have k: "k = nat (m_loadedTextures s - (i + 1))" using Suc.hyps(2) by linarith
  obtain g' where ih: "BindGLTextures_loop s (i + 1) g2 = Inr g'"
      "\<forall>n. nat (i + 1) \<le> n \<and> n < length (entries s) \<longrightarrow> gl_units g' n = ID (entries s ! n)"
      "\<forall>n. n < nat (i + 1) \<longrightarrow> gl_units g' n = gl_units g2 n"
      "gl_textures g' = gl_textures g2"
    using Suc.hyps(1) [OF k Suc.prems(1), of g2] Suc.prems(2) lt by auto
  have s: "BindGLTextures_loop s i g = Inr g'"
    by (subst BindGLTextures_loop.simps) (simp add: lt rd ih(1) [unfolded g2_def])
  have a: "\<forall>n. nat i \<le> n \<and> n < length (entries s) \<longrightarrow> gl_units g' n = ID (entries s ! n)"
  proof (intro allI impI)
    fix n assume n: "nat i \<le> n \<and> n < length (entries s)"
    show "gl_units g' n = ID (entries s ! n)"
    proof (cases "n = nat i")
      case True
      then have "n < nat (i + 1)" using Suc.prems(2) by linarith
      then have "gl_units g' n = gl_units g2 n" using ih(3) by blast
      then show ?thesis using True by (simp add: u2)
    next
      case False
      then have "nat (i + 1) \<le> n" using n Suc.prems(2) by linarith
      then show ?thesis using ih(2) n by blast
    qed
  qed
  have b: "\<forall>n. n < nat i \<longrightarrow> gl_units g' n = gl_units g n"
  proof (intro allI impI)
    fix n assume n: "n < nat i"
    then have "n < nat (i + 1)" by linarith
    then have "gl_units g' n = gl_units g2 n" using ih(3) by blast
    then show "gl_units g' n = gl_units g n" using n by (simp add: u2)
  qed
  show ?case using s a b ih(4) t2 by simp
qed

lemma distinct_notin_take: "distinct xs \<Longrightarrow> n < length xs \<Longrightarrow> xs ! n \<notin> set (take n xs)"
  by (metis id_take_nth_drop distinct_append disjoint_iff list.set_intros(1))

text \<open>
  C4. Start from an empty registry and load any list of files that decode with three or
  four channels, under pairwise distinct tags, no more files than the array has room
  for. The loads succeed and leave the tags registered in load order, and the handles
  generated by the loads are the stored IDs in the same order. \<open>BindGLTextures\<close> then
  binds entry \<open>n\<close> to texture unit \<open>n\<close>, and \<open>FindTextureSlot\<close> on the tag of the \<open>n\<close>-th
  load returns \<open>n\<close>.
\<close>

theorem bind_slot_correspondence:
  assumes "m_loadedTextures s = 0" and "length ls \<le> length (m_textureIDs s)"
    and "list_all (decodes stbi_load) (map fst ls)" and "distinct (map snd ls)"
  shows "\<exists>s' g1 g'. loads stbi_load ls (s, g) = Inr (s', g1)
     \<and> BindGLTextures (s', g1) = Inr (s', g')
     \<and> texture_tags s' = map snd ls
     \<and> gl_textures g1 = gl_textures g @ map ID (entries s')
     \<and> (\<forall>n<length ls. gl_units g' n = ID (entries s' ! n)
           \<and> FindTextureSlot s' (snd (ls ! n)) = Inr (int n))"
proof -
  have w: "well_formed s" using assms(1) by (simp add: well_formed_def)
  have e: "entries s = []" using assms(1) by (simp add: entries_def)
  have c: "m_loadedTextures s + int (length ls) \<le> int (length (m_textureIDs s))"
    using assms(1,2) by simp
  obtain s' g1 xs where l: "loads stbi_load ls (s, g) = Inr (s', g1)" "well_formed s'"
      "entries s' = entries s @ xs" "map TEXTURE_INFO.tag xs = map snd ls"
      "gl_textures g1 = gl_textures g @ map ID xs"
    using loads_ok [OF w c assms(3), of g] by blast
  have t: "texture_tags s' = map snd ls" using l(3,4) e by (simp add: texture_tags_def)
  have len: "length (entries s') = length ls" using t by (metis texture_tags_def length_map)
  have m: "0 \<le> m_loadedTextures s'" using l(2) by (simp add: well_formed_def)
  obtain g' where b: "BindGLTextures_loop s' 0 g1 = Inr g'"
      "\<forall>n. nat 0 \<le> n \<and> n < length (entries s') \<longrightarrow> gl_units g' n = ID (entries s' ! n)"
    using BindGLTextures_loop_ok [OF l(2) _ m, of g1] by auto
  have bind: "BindGLTextures (s', g1) = Inr (s', g')" by (simp add: BindGLTextures_def b(1))
  have slot: "\<forall>n<length ls. gl_units g' n = ID (entries s' ! n)
           \<and> FindTextureSlot s' (snd (ls ! n)) = Inr (int n)"
  proof (intro allI impI)
    fix n assume n: "n < length ls"
    have n1: "n < length (texture_tags s')" using n t by simp
    have n2: "texture_tags s' ! n = snd (ls ! n)" using n t by simp
    have n3: "snd (ls ! n) \<notin> set (take n (texture_tags s'))"
      using distinct_notin_take [of "texture_tags s'" n] assms(4) n1 n2 t by simp
    show "gl_units g' n = ID (entries s' ! n)
           \<and> FindTextureSlot s' (snd (ls ! n)) = Inr (int n)"
      using b(2) n len FindTextureSlot_hit [OF l(2) n1 n2 n3] by simp
  qed
  show ?thesis using l(1) bind t l(5) l(3) e slot by auto
qed

theorem bind_slot_correspondence_witness:
  "m_loadedTextures scene0 = 0
     \<and> length [(''a.jpg'', ''floor''), (''b.jpg'', ''wall'')] \<le> length (m_textureIDs scene0)
     \<and> list_all (decodes (\<lambda>_. Some rgb)) (map fst [(''a.jpg'', ''floor''), (''b.jpg'', ''wall'')])
     \<and> distinct (map snd [(''a.jpg'', ''floor''), (''b.jpg'', ''wall'')])
     \<and> (\<exists>s' g1 g'.
           loads (\<lambda>_. Some rgb) [(''a.jpg'', ''floor''), (''b.jpg'', ''wall'')] (scene0, gl0)
             = Inr (s', g1)
         \<and> BindGLTextures (s', g1) = Inr (s', g')
         \<and> texture_tags s' = [''floor'', ''wall'']
         \<and> gl_units g' 0 = ID (entries s' ! 0) \<and> gl_units g' 1 = ID (entries s' ! 1)
         \<and> FindTextureSlot s' ''floor'' = Inr 0 \<and> FindTextureSlot s' ''wall'' = Inr 1)"
proof -
  let ?ls = "[(''a.jpg'', ''floor''), (''b.jpg'', ''wall'')]"
  have h1: "m_loadedTextures scene0 = 0" by (simp add: scene0_facts)
  have h2: "length ?ls \<le> length (m_textureIDs scene0)" by (simp add: scene0_facts)
  have h3: "list_all (decodes (\<lambda>_. Some rgb)) (map fst ?ls)" by (simp add: decodes_def rgb_def)
  have h4: "distinct (map snd ?ls)" by simp
  obtain s' g1 g' where r: "loads (\<lambda>_. Some rgb) ?ls (scene0, gl0) = Inr (s', g1)"
      "BindGLTextures (s', g1) = Inr (s', g')" "texture_tags s' = map snd ?ls"
      "\<forall>n<length ?ls. gl_units g' n = ID (entries s' ! n)
           \<and> FindTextureSlot s' (snd (?ls ! n)) = Inr (int n)"
    using bind_slot_correspondence [OF h1 h2 h3 h4, of gl0] by blast
  have "gl_units g' 0 = ID (entries s' ! 0) \<and> FindTextureSlot s' ''floor'' = Inr 0"
    using r(4) [rule_format, of 0] by simp
  moreover have "gl_units g' 1 = ID (entries s' ! 1) \<and> FindTextureSlot s' ''wall'' = Inr 1"
    using r(4) [rule_format, of 1] by simp
  ultimately show ?thesis using h1 h2 h3 h4 r(1,2,3) by auto
qed

declare DestroyGLTextures_loop.simps [simp del]

lemma gl_sequential_gen: "gl_sequential g \<Longrightarrow> gl_sequential (snd (glGenTextures g))"
  by (simp add: gl_sequential_def glGenTextures_def Let_def)

lemma gl_sequential_distinct:
  assumes "gl_sequential g" and "length (gl_textures g) \<le> 2 ^ 32"
  shows "distinct (gl_textures g)"
proof -
  have "inj_on (\<lambda>k. (of_nat k + 1 :: GLuint)) (set [0..<length (gl_textures g)])"
  proof (rule inj_onI)
    fix x y assume x: "x \<in> set [0..<length (gl_textures g)]"
      and y: "y \<in> set [0..<length (gl_textures g)]"
      and e: "(of_nat x + 1 :: GLuint) = of_nat y + 1"
    have "x < 2 ^ 32" "y < 2 ^ 32" using x y assms(2) by auto
    then have "take_bit 32 x = x" "take_bit 32 y = y" by (simp_all add: take_bit_nat_eq_self)
    moreover have "(of_nat x :: GLuint) = of_nat y" using e by simp
    ultimately show "x = y" by (simp add: word_of_nat_eq_iff)
  qed
  then have "distinct (map (\<lambda>k. (of_nat k + 1 :: GLuint)) [0..<length (gl_textures g)])"
    by (simp add: distinct_map)
  then show ?thesis using assms(1) by (simp add: gl_sequential_def)
qed

lemma DestroyGLTextures_loop_ok:
  assumes "well_formed s" and "0 \<le> i" and "i \<le> m_loadedTextures s"
  shows "\<exists>s' g'. DestroyGLTextures_loop i (s, g) = Inr (s', g')
     \<and> m_loadedTextures s' = m_loadedTextures s
     \<and> map TEXTURE_INFO.tag (m_textureIDs s') = map TEXTURE_INFO.tag (m_textureIDs s)
     \<and> take (nat i) (m_textureIDs s') = take (nat i) (m_textureIDs s)
     \<and> drop (nat (m_loadedTextures s)) (m_textureIDs s')
         = drop (nat (m_loadedTextures s)) (m_textureIDs s)
     \<and> gl_textures g' = gl_textures g @ map ID (drop (nat i) (entries s'))
     \<and> m_objectMaterials s' = m_objectMaterials s
     \<and> m_pShaderManager s' = m_pShaderManager s
     \<and> m_basicMeshes s' = m_basicMeshes s
     \<and> gl_units g' = gl_units g \<and> gl_active g' = gl_active g \<and> gl_calls g' = gl_calls g
     \<and> (gl_sequential g \<longrightarrow> gl_sequential g')"
  using assms
proof (induction "nat (m_loadedTextures s - i)" arbitrary: i s g)
  case 0
  then have "i = m_loadedTextures s" by simp
  then show ?case using 0 by (simp add: DestroyGLTextures_loop.simps entries_def)
next
  case (Suc k)
  then have lt: "i < m_loadedTextures s" by linarith
  have il: "nat i < length (m_textureIDs s)"
    using lt Suc.prems by (simp add: well_formed_def)
  define n :: GLuint where "n = of_nat (length (gl_textures g)) + 1"
  define g1 where "g1 = g\<lparr>gl_textures := gl_textures g @ [n]\<rparr>"
  define a where "a = (m_textureIDs s)[nat i := (m_textureIDs s ! nat i)\<lparr>ID := n\<rparr>]"
  define s1 where "s1 = s\<lparr>m_textureIDs := a\<rparr>"
  have gen: "glGenTextures g = (n, g1)" by (simp add: glGenTextures_def n_def g1_def Let_def)
  have upd: "array_update (m_textureIDs s) i (\<lambda>e. e\<lparr>ID := n\<rparr>) = Inr a"
    using il Suc.prems(2)
    by (simp add: array_update_def array_read_def array_write_def a_def)
  have w1: "well_formed s1" using Suc.prems(1) by (simp add: s1_def well_formed_def a_def)
  have k: "k = nat (m_loadedTextures s1 - (i + 1))" using Suc.hyps(2) by (simp add: s1_def)
  have i1: "0 \<le> i + 1" "i + 1 \<le> m_loadedTextures s1" using Suc.prems(2) lt by (simp_all add: s1_def)
  obtain s' g' where ih: "DestroyGLTextures_loop (i + 1) (s1, g1) = Inr (s', g')"
      "m_loadedTextures s' = m_loadedTextures s1"
      "map TEXTURE_INFO.tag (m_textureIDs s') = map TEXTURE_INFO.tag (m_textureIDs s1)"
      "take (nat (i + 1)) (m_textureIDs s') = take (nat (i + 1)) (m_textureIDs s1)"
      "drop (nat (m_loadedTextures s1)) (m_textureIDs s')
         = drop (nat (m_loadedTextures s1)) (m_textureIDs s1)"
      "gl_textures g' = gl_textures g1 @ map ID (drop (nat (i + 1)) (entries s'))"
      "m_objectMaterials s' = m_objectMaterials s1" "m_pShaderManager s' = m_pShaderManager s1"
      "m_basicMeshes s' = m_basicMeshes s1"
      "gl_units g' = gl_units g1" "gl_active g' = gl_active g1" "gl_calls g' = gl_calls g1"
      "gl_sequential g1 \<longrightarrow> gl_sequential g'"
    using Suc.hyps(1) [OF k w1 i1, of g1] by blast
  have sq: "gl_sequential g \<longrightarrow> gl_sequential g'"
    using ih(13) gl_sequential_gen [of g] by (simp add: gen)
  have step: "DestroyGLTextures_loop i (s, g) = Inr (s', g')"
    by (subst DestroyGLTextures_loop.simps) (simp add: lt gen upd ih(1) [unfolded s1_def])
  have suc: "nat (i + 1) = Suc (nat i)" using Suc.prems(2) by linarith
  have len': "length (m_textureIDs s') = length (m_textureIDs s)"
    using ih(3) by (metis length_map a_def s1_def length_list_update
        SceneManager.select_convs(3) SceneManager.surjective SceneManager.update_convs(3))
  have tags: "map TEXTURE_INFO.tag (m_textureIDs s') = map TEXTURE_INFO.tag (m_textureIDs s)"
    using il by (simp add: ih(3) s1_def a_def map_update list_update_same_conv)
  have tk: "take (nat i) (m_textureIDs s') = take (nat i) (m_textureIDs s)"
  proof -
    have "take (nat i) (m_textureIDs s') = take (nat i) (take (Suc (nat i)) (m_textureIDs s'))"
      by (simp add: min_def)
    also have "\<dots> = take (nat i) (take (Suc (nat i)) a)"
      using ih(4) by (simp add: suc s1_def)
    also have "\<dots> = take (nat i) (m_textureIDs s)" by (simp add: min_def a_def)
    finally show ?thesis .
  qed
  have dr: "drop (nat (m_loadedTextures s)) (m_textureIDs s')
         = drop (nat (m_loadedTextures s)) (m_textureIDs s)"
    using ih(5) lt Suc.prems(2) by (simp add: s1_def a_def)
  have ei: "nat i < length (entries s')"
    using lt Suc.prems(2) len' il Suc.prems(1) ih(2)
    by (simp add: entries_def s1_def well_formed_def)
  have "entries s' ! nat i = m_textureIDs s' ! nat i" using ei by (rule entries_nth)
  also have "\<dots> = take (Suc (nat i)) (m_textureIDs s') ! nat i" by simp
  also have "\<dots> = take (Suc (nat i)) a ! nat i" using ih(4) by (simp add: suc s1_def)
  also have "\<dots> = (m_textureIDs s ! nat i)\<lparr>ID := n\<rparr>" using il by (simp add: a_def)
  finally have idn: "ID (entries s' ! nat i) = n" by simp
  have "drop (nat i) (entries s') = entries s' ! nat i # drop (Suc (nat i)) (entries s')"
    using ei by (simp add: Cons_nth_drop_Suc)
  then have gt: "gl_textures g' = gl_textures g @ map ID (drop (nat i) (entries s'))"
    using ih(6) idn by (simp add: suc g1_def)
  show ?case
    using step ih(2,7,8,9,10,11,12) tags tk dr gt sq by (simp add: s1_def g1_def)
qed

text \<open>
  C10. \<open>DestroyGLTextures\<close> deletes nothing. For a counter inside the array it returns
  normally; the texture names that existed before are all still there, followed by the
  names generated during the call, one per registered entry, which are the stored IDs
  afterwards, in order. The counter, every tag, the array elements beyond the counter,
  the bindings of the texture units and the other members are as before. When the names
  in use are those handed out so far and the 32-bit names do not run out, the stored
  IDs are fresh: different from every name that existed and from each other.
\<close>

theorem DestroyGLTextures_regenerates:
  assumes "well_formed s"
  shows "\<exists>s' g'. DestroyGLTextures (s, g) = Inr (s', g')
     \<and> m_loadedTextures s' = m_loadedTextures s
     \<and> length (entries s') = length (entries s)
     \<and> texture_tags s' = texture_tags s
     \<and> map TEXTURE_INFO.tag (m_textureIDs s') = map TEXTURE_INFO.tag (m_textureIDs s)
     \<and> drop (nat (m_loadedTextures s)) (m_textureIDs s')
         = drop (nat (m_loadedTextures s)) (m_textureIDs s)
     \<and> gl_textures g' = gl_textures g @ map ID (entries s')
     \<and> gl_units g' = gl_units g \<and> gl_active g' = gl_active g \<and> gl_calls g' = gl_calls g
     \<and> m_objectMaterials s' = m_objectMaterials s
     \<and> m_pShaderManager s' = m_pShaderManager s
     \<and> m_basicMeshes s' = m_basicMeshes s
     \<and> (gl_sequential g \<and> length (gl_textures g) + length (entries s) \<le> 2 ^ 32
          \<longrightarrow> set (map ID (entries s')) \<inter> set (gl_textures g) = {}
              \<and> distinct (map ID (entries s')))"
proof -
  have m: "0 \<le> m_loadedTextures s" using assms by (simp add: well_formed_def)
  obtain s' g' where r: "DestroyGLTextures_loop 0 (s, g) = Inr (s', g')"
      "m_loadedTextures s' = m_loadedTextures s"
      "map TEXTURE_INFO.tag (m_textureIDs s') = map TEXTURE_INFO.tag (m_textureIDs s)"
      "drop (nat (m_loadedTextures s)) (m_textureIDs s')
         = drop (nat (m_loadedTextures s)) (m_textureIDs s)"
      "gl_textures g' = gl_textures g @ map ID (drop (nat 0) (entries s'))"
      "m_objectMaterials s' = m_objectMaterials s" "m_pShaderManager s' = m_pShaderManager s"
      "m_basicMeshes s' = m_basicMeshes s"
      "gl_units g' = gl_units g" "gl_active g' = gl_active g" "gl_calls g' = gl_calls g"
      "gl_sequential g \<longrightarrow> gl_sequential g'"
    using DestroyGLTextures_loop_ok [OF assms _ m, of g] by auto
  have len: "length (m_textureIDs s') = length (m_textureIDs s)"
    using r(3) by (metis length_map)
  have t: "texture_tags s' = texture_tags s"
    using r(2) arg_cong [OF r(3), of "take (nat (m_loadedTextures s))"]
    by (simp add: texture_tags_def entries_def take_map)
  have l: "length (entries s') = length (entries s)"
    using r(2) len by (simp add: entries_def)
  have f: "gl_sequential g \<and> length (gl_textures g) + length (entries s) \<le> 2 ^ 32
          \<longrightarrow> set (map ID (entries s')) \<inter> set (gl_textures g) = {}
              \<and> distinct (map ID (entries s'))"
  proof
    assume a: "gl_sequential g \<and> length (gl_textures g) + length (entries s) \<le> 2 ^ 32"
    have "length (gl_textures g') \<le> 2 ^ 32" using a r(5) l by simp
    then have "distinct (gl_textures g')" using a r(12) gl_sequential_distinct by blast
    then show "set (map ID (entries s')) \<inter> set (gl_textures g) = {}
              \<and> distinct (map ID (entries s'))"
      using r(5) by auto
  qed
  show ?thesis
    using r(1,2,3,4,6,7,8,9,10,11) r(5) t l f by (simp add: DestroyGLTextures_def)
qed

lemma gl_sequential_gl3: "gl_sequential gl3"
  by (simp add: gl_sequential_def gl3_def upt_rec)

theorem DestroyGLTextures_regenerates_witness:
  "well_formed scene3 \<and> gl_sequential gl3
   \<and> length (gl_textures gl3) + length (entries scene3) \<le> 2 ^ 32
   \<and> (\<exists>s' g'. DestroyGLTextures (scene3, gl3) = Inr (s', g')
         \<and> m_loadedTextures s' = 3
         \<and> texture_tags s' = [''floor'', ''wall'', ''wall'']
         \<and> gl_textures g' = [1, 2, 3] @ map ID (entries s')
         \<and> set (map ID (entries s')) \<inter> {1, 2, 3} = {}
         \<and> distinct (map ID (entries s')))"
proof -
  have a: "length (gl_textures gl3) + length (entries scene3) \<le> 2 ^ 32"
    by (simp add: gl3_def entries_scene3)
  have b: "m_loadedTextures scene3 = 3" by (simp add: scene3_def)
  have c: "gl_textures gl3 = [1, 2, 3]" by (simp add: gl3_def)
  show ?thesis
    using DestroyGLTextures_regenerates [OF well_formed_scene3, of gl3] a gl_sequential_gl3
    by (simp add: well_formed_scene3 texture_tags_scene3 b c) blast
qed

section \<open>Rendering a frame\<close>

lemma first_occurrence:
  "t \<in> set xs \<Longrightarrow>
     length (takeWhile (\<lambda>x. x \<noteq> t) xs) < length xs
     \<and> xs ! length (takeWhile (\<lambda>x. x \<noteq> t) xs) = t
     \<and> t \<notin> set (take (length (takeWhile (\<lambda>x. x \<noteq> t) xs)) xs)"
  by (induction xs) auto

lemma FindTextureSlot_first_index:
  assumes "well_formed s"
  shows "FindTextureSlot s t = Inr (first_index (texture_tags s) t)"
proof (cases "t \<in> set (texture_tags s)")
  case False
  then show ?thesis using FindTextureSlot_miss [OF assms] by (simp add: first_index_def)
next
  case True
  let ?n = "length (takeWhile (\<lambda>x. x \<noteq> t) (texture_tags s))"
  have "?n < length (texture_tags s)" and "texture_tags s ! ?n = t"
    and "t \<notin> set (take ?n (texture_tags s))"
    using first_occurrence [OF True] by simp_all
  then show ?thesis using FindTextureSlot_hit [OF assms] True by (simp add: first_index_def)
qed

lemma ready_emit: "ready (emit a b s) = ready s"
  by (simp add: ready_def emit_def well_formed_def)

lemma registry_emit: "registry (emit a b s) = registry s"
  by (simp add: registry_def emit_def)

lemma emit_emit: "emit a2 b2 (emit a1 b1 s) = emit (a1 @ a2) (b1 @ b2) s"
  by (cases "m_pShaderManager s") (simp_all add: emit_def)

lemma emit_nil: "emit [] [] s = s"
  by (cases "m_pShaderManager s") (simp_all add: emit_def)

lemma steadyI:
  assumes "\<And>s. ready s \<Longrightarrow> f s = Inr (emit (a (registry s)) (b (registry s)) s)"
  shows "steady f"
  unfolding steady_def by (rule exI [of _ "\<lambda>r. (a r, b r)"]) (simp add: assms)

lemma steady_run_Nil: "steady (run [])"
  by (rule steadyI [of _ "\<lambda>_. []" "\<lambda>_. []"]) (simp add: emit_nil)

lemma steady_run_Cons:
  assumes "steady f" and "steady (run fs)"
  shows "steady (run (f # fs))"
proof -
  obtain o1 where o1: "\<And>s. ready s \<Longrightarrow> f s = Inr (emit (fst (o1 (registry s))) (snd (o1 (registry s))) s)"
    using assms(1) unfolding steady_def by blast
  obtain o2 where o2: "\<And>s. ready s \<Longrightarrow> run fs s = Inr (emit (fst (o2 (registry s))) (snd (o2 (registry s))) s)"
    using assms(2) unfolding steady_def by blast
  show ?thesis
  proof (rule steadyI [of _ "\<lambda>r. fst (o1 r) @ fst (o2 r)" "\<lambda>r. snd (o1 r) @ snd (o2 r)"])
    fix s assume r: "ready s"
    have r1: "ready (emit (fst (o1 (registry s))) (snd (o1 (registry s))) s)"
      using r by (simp add: ready_emit)
    show "run (f # fs) s = Inr (emit (fst (o1 (registry s)) @ fst (o2 (registry s)))
             (snd (o1 (registry s)) @ snd (o2 (registry s))) s)"
      using o1 [OF r] o2 [OF r1] by (simp add: registry_emit emit_emit)
  qed
qed

lemma steady_SetTransformations: "steady (ok (SetTransformations sc xr yr zr p))"
proof (rule steadyI [of _ "\<lambda>_. [(g_ModelName, Mat4Value (glm_translate p
      * glm_rotate (glm_radians zr) (vec3 0 0 1) * glm_rotate (glm_radians yr) (vec3 0 1 0)
      * glm_rotate (glm_radians xr) (vec3 1 0 0) * glm_scale sc))]" "\<lambda>_. []"])
  fix s assume "ready s"
  then obtain sh where "m_pShaderManager s = Some sh" by (auto simp: ready_def)
  then show "ok (SetTransformations sc xr yr zr p) s = Inr (emit [(g_ModelName, Mat4Value (glm_translate p
      * glm_rotate (glm_radians zr) (vec3 0 0 1) * glm_rotate (glm_radians yr) (vec3 0 1 0)
      * glm_rotate (glm_radians xr) (vec3 1 0 0) * glm_scale sc))] [] s)"
    by (simp add: ok_def SetTransformations_def Let_def emit_def setValue_def)
qed

lemma steady_SetShaderColor: "steady (ok (SetShaderColor r g b a))"
proof (rule steadyI [of _ "\<lambda>_. [(g_UseTextureName, IntValue 0),
      (g_ColorValueName, Vec4Value (vec4 r g b a))]" "\<lambda>_. []"])
  fix s assume "ready s"
  then obtain sh where "m_pShaderManager s = Some sh" by (auto simp: ready_def)
  then show "ok (SetShaderColor r g b a) s = Inr (emit [(g_UseTextureName, IntValue 0),
      (g_ColorValueName, Vec4Value (vec4 r g b a))] [] s)"
    by (simp add: ok_def SetShaderColor_def Let_def emit_def setValue_def)
qed

lemma steady_SetTextureUVScale: "steady (ok (SetTextureUVScale a b))"
proof (rule steadyI [of _ "\<lambda>_. [(''UVscale'', Vec2Value (vec2 a b))]" "\<lambda>_. []"])
  fix s assume "ready s"
  then obtain sh where "m_pShaderManager s = Some sh" by (auto simp: ready_def)
  then show "ok (SetTextureUVScale a b) s = Inr (emit [(''UVscale'', Vec2Value (vec2 a b))] [] s)"
    by (simp add: ok_def SetTextureUVScale_def emit_def setValue_def)
qed

lemma steady_SetShaderTexture: "steady (SetShaderTexture t)"
proof (rule steadyI [of _ "\<lambda>r. [(g_UseTextureName, IntValue 1),
      (g_TextureValueName, Sampler2DValue
         (first_index (map TEXTURE_INFO.tag (take (nat (fst (snd r))) (fst r))) t))]" "\<lambda>_. []"])
  fix s assume r: "ready s"
  then obtain sh where sh: "m_pShaderManager s = Some sh" by (auto simp: ready_def)
  have "FindTextureSlot s t = Inr (first_index (texture_tags s) t)"
    using r by (simp add: FindTextureSlot_first_index ready_def)
  then show "SetShaderTexture t s = Inr (emit [(g_UseTextureName, IntValue 1),
      (g_TextureValueName, Sampler2DValue
         (first_index (map TEXTURE_INFO.tag (take (nat (fst (snd (registry s)))) (fst (registry s)))) t))]
      [] s)"
    using sh
    by (simp add: SetShaderTexture_def emit_def setValue_def registry_def texture_tags_def
          entries_def)
qed

lemma steady_SetShaderMaterial: "steady (SetShaderMaterial u t)"
proof (rule steadyI [of _ "\<lambda>r. if snd (snd r) = [] then [] else
      [(''material.diffuseColor'',
          Vec3Value (diffuseColor (snd (FindMaterial_loop (snd (snd r)) t 0 False (declared u))))),
       (''material.specularColor'',
          Vec3Value (specularColor (snd (FindMaterial_loop (snd (snd r)) t 0 False (declared u))))),
       (''material.shininess'',
          FloatValue (shininess (snd (FindMaterial_loop (snd (snd r)) t 0 False (declared u)))))]" "\<lambda>_. []"])
  fix s assume r: "ready s"
  then obtain sh where sh: "m_pShaderManager s = Some sh" by (auto simp: ready_def)
  show "SetShaderMaterial u t s = Inr (emit (if snd (snd (registry s)) = [] then [] else
      [(''material.diffuseColor'',
          Vec3Value (diffuseColor (snd (FindMaterial_loop (snd (snd (registry s))) t 0 False (declared u))))),
       (''material.specularColor'',
          Vec3Value (specularColor (snd (FindMaterial_loop (snd (snd (registry s))) t 0 False (declared u))))),
       (''material.shininess'',
          FloatValue (shininess (snd (FindMaterial_loop (snd (snd (registry s))) t 0 False (declared u)))))])
      [] s)"
    using sh
    by (simp add: SetShaderMaterial_def FindMaterial_def emit_def setValue_def registry_def
          emit_nil [unfolded emit_def])
qed

lemma steady_Draw:
  "steady (ok DrawPlaneMesh)" "steady (ok DrawSphereMesh)" "steady (ok DrawTaperedCylinderMesh)"
  "steady (ok DrawBoxMesh)" "steady (ok DrawCylinderMesh)" "steady (ok DrawPrismMesh)"
proof -
  have d: "\<And>f m. (\<And>s. f s = s\<lparr>m_basicMeshes := m_basicMeshes s @ [DrawMesh m]\<rparr>) \<Longrightarrow> steady (ok f)"
  proof -
    fix f :: "SceneManager \<Rightarrow> SceneManager" and m
    assume f: "\<And>s. f s = s\<lparr>m_basicMeshes := m_basicMeshes s @ [DrawMesh m]\<rparr>"
    show "steady (ok f)"
    proof (rule steadyI [of _ "\<lambda>_. []" "\<lambda>_. [DrawMesh m]"])
      fix s assume "ready s"
      then obtain sh where "m_pShaderManager s = Some sh" by (auto simp: ready_def)
      then show "ok f s = Inr (emit [] [DrawMesh m] s)"
        by (simp add: ok_def f emit_def)
    qed
  qed
  show "steady (ok DrawPlaneMesh)" by (rule d) (simp add: DrawPlaneMesh_def)
  show "steady (ok DrawSphereMesh)" by (rule d) (simp add: DrawSphereMesh_def)
  show "steady (ok DrawTaperedCylinderMesh)" by (rule d) (simp add: DrawTaperedCylinderMesh_def)
  show "steady (ok DrawBoxMesh)" by (rule d) (simp add: DrawBoxMesh_def)
  show "steady (ok DrawCylinderMesh)" by (rule d) (simp add: DrawCylinderMesh_def)
  show "steady (ok DrawPrismMesh)" by (rule d) (simp add: DrawPrismMesh_def)
qed

lemmas steady_steps =
  steady_run_Cons steady_run_Nil steady_SetTransformations steady_SetShaderColor
  steady_SetTextureUVScale steady_SetShaderTexture steady_SetShaderMaterial steady_Draw

lemma steady_routines:
  "steady (RenderFloor u)" "steady (RenderWall u)" "steady (RenderBookcase u)"
  "steady (RenderWindow u)" "steady (RenderVase u)" "steady (RenderBook u)"
  "steady (RenderDesk u)" "steady (RenderCat u)"
  unfolding RenderFloor_def RenderWall_def RenderBookcase_def RenderWindow_def RenderVase_def
    RenderBook_def RenderDesk_def RenderCat_def
  by (intro steady_steps)+

lemma steady_RenderScene: "steady (RenderScene u)"
  unfolding RenderScene_def by (intro steady_run_Cons steady_run_Nil steady_routines)

lemma drawn_run_Nil: "drawn (run []) []"
  by (simp add: drawn_def)

lemma drawn_run_Cons:
  assumes "drawn f a" and "drawn (run fs) b"
  shows "drawn (run (f # fs)) (a @ b)"
  using assms unfolding drawn_def by (auto split: sum.splits)

lemma drawn_eq: "drawn f a \<Longrightarrow> a = b \<Longrightarrow> drawn f b"
  by simp

lemma drawn_setters:
  "drawn (ok (SetTransformations sc xr yr zr p)) []"
  "drawn (ok (SetShaderColor r g b a)) []"
  "drawn (ok (SetTextureUVScale c d)) []"
  "drawn (SetShaderTexture t) []"
  "drawn (SetShaderMaterial u t) []"
  by (auto simp: drawn_def ok_def SetTransformations_def SetShaderColor_def SetTextureUVScale_def
        SetShaderTexture_def SetShaderMaterial_def Let_def
        split: option.splits sum.splits if_splits prod.splits)

lemma drawn_Draw:
  "drawn (ok DrawPlaneMesh) [DrawMesh PlaneMesh]"
  "drawn (ok DrawSphereMesh) [DrawMesh SphereMesh]"
  "drawn (ok DrawTaperedCylinderMesh) [DrawMesh TaperedCylinderMesh]"
  "drawn (ok DrawBoxMesh) [DrawMesh BoxMesh]"
  "drawn (ok DrawCylinderMesh) [DrawMesh CylinderMesh]"
  "drawn (ok DrawPrismMesh) [DrawMesh PrismMesh]"
  by (auto simp: drawn_def ok_def DrawPlaneMesh_def DrawSphereMesh_def
        DrawTaperedCylinderMesh_def DrawBoxMesh_def DrawCylinderMesh_def DrawPrismMesh_def)

lemmas drawn_steps = drawn_run_Cons drawn_run_Nil drawn_setters drawn_Draw

lemma drawn_RenderFloor: "drawn (RenderFloor u) [DrawMesh PlaneMesh]"
  unfolding RenderFloor_def by (rule drawn_eq, (rule drawn_steps)+, simp)

lemma drawn_RenderWall: "drawn (RenderWall u) (replicate 3 (DrawMesh PlaneMesh))"
  unfolding RenderWall_def by (rule drawn_eq, (rule drawn_steps)+, simp add: numeral_3_eq_3)

lemma drawn_RenderBookcase: "drawn (RenderBookcase u) (replicate 5 (DrawMesh BoxMesh))"
  unfolding RenderBookcase_def
  by (rule drawn_eq, (rule drawn_steps)+, simp add: eval_nat_numeral)

lemma drawn_RenderWindow: "drawn (RenderWindow u) [DrawMesh BoxMesh]"
  unfolding RenderWindow_def by (rule drawn_eq, (rule drawn_steps)+, simp)

lemma drawn_RenderVase:
  "drawn (RenderVase u)
     [DrawMesh SphereMesh, DrawMesh TaperedCylinderMesh, DrawMesh TaperedCylinderMesh]"
  unfolding RenderVase_def by (rule drawn_eq, (rule drawn_steps)+, simp)

lemma drawn_RenderBook: "drawn (RenderBook u) (replicate 8 (DrawMesh BoxMesh))"
  unfolding RenderBook_def by (rule drawn_eq, (rule drawn_steps)+, simp add: eval_nat_numeral)

lemma drawn_RenderDesk: "drawn (RenderDesk u) (replicate 3 (DrawMesh BoxMesh))"
  unfolding RenderDesk_def by (rule drawn_eq, (rule drawn_steps)+, simp add: eval_nat_numeral)

lemma drawn_RenderCat:
  "drawn (RenderCat u)
     [DrawMesh CylinderMesh, DrawMesh CylinderMesh, DrawMesh SphereMesh,
      DrawMesh TaperedCylinderMesh, DrawMesh PrismMesh, DrawMesh TaperedCylinderMesh,
      DrawMesh PrismMesh, DrawMesh CylinderMesh, DrawMesh CylinderMesh, DrawMesh CylinderMesh,
      DrawMesh CylinderMesh, DrawMesh CylinderMesh]"
  unfolding RenderCat_def by (rule drawn_eq, (rule drawn_steps)+, simp)

lemma steady_step:
  assumes "steady f" and "ready s"
  shows "\<exists>a b. f s = Inr (emit a b s) \<and> ready (emit a b s)
     \<and> registry (emit a b s) = registry s
     \<and> (\<forall>s'. ready s' \<and> registry s' = registry s \<longrightarrow> f s' = Inr (emit a b s'))"
proof -
  obtain out where o: "\<And>s. ready s \<Longrightarrow> f s = Inr (emit (fst (out (registry s))) (snd (out (registry s))) s)"
    using assms(1) unfolding steady_def by blast
  show ?thesis
    by (rule exI [of _ "fst (out (registry s))"], rule exI [of _ "snd (out (registry s))"])
       (use o assms(2) in \<open>auto simp: ready_emit registry_emit\<close>)
qed

lemma routine_step:
  assumes "steady f" and "drawn f ds" and "ready s"
  shows "\<exists>s'. f s = Inr s' \<and> m_basicMeshes s' = m_basicMeshes s @ ds \<and> ready s'"
proof -
  obtain a b where "f s = Inr (emit a b s)" "ready (emit a b s)"
    using steady_step [OF assms(1,3)] by blast
  then show ?thesis using assms(2) unfolding drawn_def by blast
qed

text \<open>
  C9. On a state with a shader manager and the counter within the array, \<open>RenderScene\<close>
  returns normally and is the run of the eight routines in the order floor, wall,
  bookcase, window, vase, book, desk, cat, each drawing its fixed list of meshes: 36
  draw calls in all. It changes nothing but the two call logs, by \<open>ups\<close> and by the 36
  draws, and a second invocation on the resulting state appends the same setter calls
  and the same draws once more.
\<close>

theorem RenderScene_fixed_order:
  assumes "well_formed s" and "m_pShaderManager s = Some sh"
  shows "\<exists>s1 s2 s3 s4 s5 s6 s7 s8 ups.
       RenderFloor u s = Inr s1
     \<and> m_basicMeshes s1 = m_basicMeshes s @ [DrawMesh PlaneMesh]
     \<and> RenderWall u s1 = Inr s2
     \<and> m_basicMeshes s2 = m_basicMeshes s1 @ replicate 3 (DrawMesh PlaneMesh)
     \<and> RenderBookcase u s2 = Inr s3
     \<and> m_basicMeshes s3 = m_basicMeshes s2 @ replicate 5 (DrawMesh BoxMesh)
     \<and> RenderWindow u s3 = Inr s4
     \<and> m_basicMeshes s4 = m_basicMeshes s3 @ [DrawMesh BoxMesh]
     \<and> RenderVase u s4 = Inr s5
     \<and> m_basicMeshes s5 = m_basicMeshes s4 @
          [DrawMesh SphereMesh, DrawMesh TaperedCylinderMesh, DrawMesh TaperedCylinderMesh]
     \<and> RenderBook u s5 = Inr s6
     \<and> m_basicMeshes s6 = m_basicMeshes s5 @ replicate 8 (DrawMesh BoxMesh)
     \<and> RenderDesk u s6 = Inr s7
     \<and> m_basicMeshes s7 = m_basicMeshes s6 @ replicate 3 (DrawMesh BoxMesh)
     \<and> RenderCat u s7 = Inr s8
     \<and> m_basicMeshes s8 = m_basicMeshes s7 @
          [DrawMesh CylinderMesh, DrawMesh CylinderMesh, DrawMesh SphereMesh,
           DrawMesh TaperedCylinderMesh, DrawMesh PrismMesh, DrawMesh TaperedCylinderMesh,
           DrawMesh PrismMesh, DrawMesh CylinderMesh, DrawMesh CylinderMesh,
           DrawMesh CylinderMesh, DrawMesh CylinderMesh, DrawMesh CylinderMesh]
     \<and> RenderScene u s = Inr s8
     \<and> length (m_basicMeshes s8) = length (m_basicMeshes s) + 36
     \<and> s8 = emit ups (drop (length (m_basicMeshes s)) (m_basicMeshes s8)) s
     \<and> RenderScene u s8
         = Inr (emit ups (drop (length (m_basicMeshes s)) (m_basicMeshes s8)) s8)"
proof -
  have r: "ready s" using assms by (simp add: ready_def)
  obtain s1 where 1: "RenderFloor u s = Inr s1"
      "m_basicMeshes s1 = m_basicMeshes s @ [DrawMesh PlaneMesh]" "ready s1"
    using routine_step [OF steady_routines(1) drawn_RenderFloor r] by blast
  obtain s2 where 2: "RenderWall u s1 = Inr s2"
      "m_basicMeshes s2 = m_basicMeshes s1 @ replicate 3 (DrawMesh PlaneMesh)" "ready s2"
    using routine_step [OF steady_routines(2) drawn_RenderWall 1(3)] by blast
  obtain s3 where 3: "RenderBookcase u s2 = Inr s3"
      "m_basicMeshes s3 = m_basicMeshes s2 @ replicate 5 (DrawMesh BoxMesh)" "ready s3"
    using routine_step [OF steady_routines(3) drawn_RenderBookcase 2(3)] by blast
  obtain s4 where 4: "RenderWindow u s3 = Inr s4"
      "m_basicMeshes s4 = m_basicMeshes s3 @ [DrawMesh BoxMesh]" "ready s4"
    using routine_step [OF steady_routines(4) drawn_RenderWindow 3(3)] by blast
  obtain s5 where 5: "RenderVase u s4 = Inr s5"
      "m_basicMeshes s5 = m_basicMeshes s4 @
          [DrawMesh SphereMesh, DrawMesh TaperedCylinderMesh, DrawMesh TaperedCylinderMesh]"
      "ready s5"
    using routine_step [OF steady_routines(5) drawn_RenderVase 4(3)] by blast
  obtain s6 where 6: "RenderBook u s5 = Inr s6"
      "m_basicMeshes s6 = m_basicMeshes s5 @ replicate 8 (DrawMesh BoxMesh)" "ready s6"
    using routine_step [OF steady_routines(6) drawn_RenderBook 5(3)] by blast
  obtain s7 where 7: "RenderDesk u s6 = Inr s7"
      "m_basicMeshes s7 = m_basicMeshes s6 @ replicate 3 (DrawMesh BoxMesh)" "ready s7"
    using routine_step [OF steady_routines(7) drawn_RenderDesk 6(3)] by blast
  obtain s8 where 8: "RenderCat u s7 = Inr s8"
      "m_basicMeshes s8 = m_basicMeshes s7 @
          [DrawMesh CylinderMesh, DrawMesh CylinderMesh, DrawMesh SphereMesh,
           DrawMesh TaperedCylinderMesh, DrawMesh PrismMesh, DrawMesh TaperedCylinderMesh,
           DrawMesh PrismMesh, DrawMesh CylinderMesh, DrawMesh CylinderMesh,
           DrawMesh CylinderMesh, DrawMesh CylinderMesh, DrawMesh CylinderMesh]"
      "ready s8"
    using routine_step [OF steady_routines(8) drawn_RenderCat 7(3)] by blast
  have scene: "RenderScene u s = Inr s8"
    by (simp add: RenderScene_def 1(1) 2(1) 3(1) 4(1) 5(1) 6(1) 7(1) 8(1))
  have len: "length (m_basicMeshes s8) = length (m_basicMeshes s) + 36"
    by (simp add: 1(2) 2(2) 3(2) 4(2) 5(2) 6(2) 7(2) 8(2))
  obtain a b where e: "RenderScene u s = Inr (emit a b s)"
      "ready (emit a b s)" "registry (emit a b s) = registry s"
      "\<forall>s'. ready s' \<and> registry s' = registry s \<longrightarrow> RenderScene u s' = Inr (emit a b s')"
    using steady_step [OF steady_RenderScene r] by blast
  have s8: "s8 = emit a b s" using scene e(1) by simp
  have b: "drop (length (m_basicMeshes s)) (m_basicMeshes s8) = b"
    by (simp add: s8 emit_def)
  have again: "RenderScene u s8 = Inr (emit a b s8)"
    using e(2,3,4) s8 by blast
  have s8': "s8 = emit a (drop (length (m_basicMeshes s)) (m_basicMeshes s8)) s"
    using s8 b by simp
  have again': "RenderScene u s8
         = Inr (emit a (drop (length (m_basicMeshes s)) (m_basicMeshes s8)) s8)"
    using again b by simp
  show ?thesis
    apply (rule exI [of _ s1], rule exI [of _ s2], rule exI [of _ s3], rule exI [of _ s4])
    apply (rule exI [of _ s5], rule exI [of _ s6], rule exI [of _ s7], rule exI [of _ s8])
    apply (rule exI [of _ a])
    apply (intro conjI)
    apply (fact 1 2 3 4 5 6 7 8 scene len s8' again')+
    done
qed

text \<open>
  \<open>PrepareScene\<close> leaves such a state: from a state with a shader manager and room for
  eleven textures it returns normally, whatever the decoder reports for the files.
\<close>

lemma run_append:
  "run (fs @ gs) s = (case run fs s of Inl e \<Rightarrow> Inl e | Inr s' \<Rightarrow> run gs s')"
  by (induction fs arbitrary: s) (auto split: sum.splits)

lemma load_total:
  assumes "well_formed s" and "m_loadedTextures s < int (length (m_textureIDs s))"
  shows "\<exists>s' g'. load stbi_load f t (s, g) = Inr (s', g') \<and> well_formed s'
     \<and> m_loadedTextures s' \<le> m_loadedTextures s + 1
     \<and> length (m_textureIDs s') = length (m_textureIDs s)
     \<and> m_pShaderManager s' = m_pShaderManager s
     \<and> m_objectMaterials s' = m_objectMaterials s
     \<and> m_basicMeshes s' = m_basicMeshes s"
proof (cases "decodes stbi_load f")
  case True
  have r: "0 \<le> m_loadedTextures s" using assms(1) by (simp add: well_formed_def)
  obtain g' where "load stbi_load f t (s, g)
     = Inr (s\<lparr>m_textureIDs := (m_textureIDs s)[nat (m_loadedTextures s) :=
                  \<lparr>ID = of_nat (length (gl_textures g)) + 1, tag = t\<rparr>],
              m_loadedTextures := m_loadedTextures s + 1\<rparr>, g')"
    using load_ok [OF True r assms(2), of t g] by blast
  then show ?thesis using assms r by (simp add: well_formed_def)
next
  case False
  then have "\<exists>g'. load stbi_load f t (s, g) = Inr (s, g')"
    by (auto simp: decodes_def load_def CreateGLTexture_def Let_def
          split: option.splits prod.splits)
  then show ?thesis using assms(1) by auto
qed

lemma loads_total:
  assumes "well_formed s"
    and "m_loadedTextures s + int (length ls) \<le> int (length (m_textureIDs s))"
  shows "\<exists>s' g'. loads stbi_load ls (s, g) = Inr (s', g') \<and> well_formed s'
     \<and> m_pShaderManager s' = m_pShaderManager s
     \<and> m_objectMaterials s' = m_objectMaterials s
     \<and> m_basicMeshes s' = m_basicMeshes s"
  using assms
proof (induction ls arbitrary: s g)
  case Nil
  then show ?case by (simp add: loads_def)
next
  case (Cons ft ls)
  have lt: "m_loadedTextures s < int (length (m_textureIDs s))" using Cons.prems(2) by simp
  obtain s1 g1 where l: "load stbi_load (fst ft) (snd ft) (s, g) = Inr (s1, g1)"
      "well_formed s1" "m_loadedTextures s1 \<le> m_loadedTextures s + 1"
      "length (m_textureIDs s1) = length (m_textureIDs s)"
      "m_pShaderManager s1 = m_pShaderManager s" "m_objectMaterials s1 = m_objectMaterials s"
      "m_basicMeshes s1 = m_basicMeshes s"
    using load_total [OF Cons.prems(1) lt, of stbi_load "fst ft" "snd ft" g] by blast
  have c: "m_loadedTextures s1 + int (length ls) \<le> int (length (m_textureIDs s1))"
    using Cons.prems(2) l(3,4) by simp
  show ?case
    using Cons.IH [OF l(2) c, of g1] l(1,5,6,7) by (auto simp: loads_Cons)
qed

lemma LoadSceneTextures_ok:
  assumes "well_formed s" and "m_loadedTextures s + 11 \<le> int (length (m_textureIDs s))"
  shows "\<exists>s' g'. LoadSceneTextures stbi_load (s, g) = Inr (s', g') \<and> well_formed s'
     \<and> m_pShaderManager s' = m_pShaderManager s
     \<and> m_objectMaterials s' = m_objectMaterials s
     \<and> m_basicMeshes s' = m_basicMeshes s"
proof -
  let ?ls = "[(''./textures/wood.jpg'', ''floor''), (''./textures/wall.jpg'', ''wall''),
      (''./textures/tan.jpg'', ''vase''), (''./textures/red.jpeg'', ''book''),
      (''./textures/brick.jpeg'', ''brick''), (''./textures/glass.jpg'', ''window''),
      (''./textures/green.jpg'', ''book1''), (''./textures/blue.jpg'', ''book2''),
      (''./textures/desk.jpg'', ''desk''), (''./textures/book3.jpg'', ''book3''),
      (''./textures/fur.jpeg'', ''cat'')]"
  have eq: "LoadSceneTextures stbi_load
      = run (map (\<lambda>ft. load stbi_load (fst ft) (snd ft)) ?ls @ [BindGLTextures])"
    by (simp add: LoadSceneTextures_def)
  have c: "m_loadedTextures s + int (length ?ls) \<le> int (length (m_textureIDs s))"
    using assms(2) by simp
  obtain s' g1 where l: "loads stbi_load ?ls (s, g) = Inr (s', g1)" "well_formed s'"
      "m_pShaderManager s' = m_pShaderManager s" "m_objectMaterials s' = m_objectMaterials s"
      "m_basicMeshes s' = m_basicMeshes s"
    using loads_total [OF assms(1) c, of stbi_load g] by blast
  have m: "0 \<le> m_loadedTextures s'" using l(2) by (simp add: well_formed_def)
  obtain g' where b: "BindGLTextures_loop s' 0 g1 = Inr g'"
    using BindGLTextures_loop_ok [OF l(2) _ m, of g1] by auto
  have "LoadSceneTextures stbi_load (s, g) = Inr (s', g')"
    unfolding eq run_append using l(1) b by (simp add: loads_def BindGLTextures_def)
  then show ?thesis using l by blast
qed

lemma PrepareScene_ready:
  assumes "well_formed s" and "m_loadedTextures s + 11 \<le> int (length (m_textureIDs s))"
    and "m_pShaderManager s \<noteq> None"
  shows "\<exists>s' g'. PrepareScene stbi_load u1 u2 u3 u4 (s, g) = Inr (s', g') \<and> ready s'
     \<and> material_tags s' = material_tags s @ [''clay'', ''wood'', ''glass'', []]"
proof -
  obtain s1 g1 where l: "LoadSceneTextures stbi_load (s, g) = Inr (s1, g1)" "well_formed s1"
      "m_pShaderManager s1 = m_pShaderManager s" "m_objectMaterials s1 = m_objectMaterials s"
    using LoadSceneTextures_ok [OF assms(1,2), of stbi_load g] by blast
  define s2 where "s2 = DefineObjectMaterials u1 u2 u3 u4 s1"
  have w2: "well_formed s2" using l(2)
    by (simp add: s2_def DefineObjectMaterials_def push_back_def well_formed_def)
  obtain sh where p2: "m_pShaderManager s2 = Some sh" using l(3) assms(3)
    by (auto simp: s2_def DefineObjectMaterials_def push_back_def)
  have t2: "material_tags s2 = material_tags s @ [''clay'', ''wood'', ''glass'', []]"
    using l(4) by (simp add: s2_def material_tags_Define) (simp add: material_tags_def)
  obtain s3 where s3: "SetupSceneLights s2 = Inr s3" "well_formed s3" "m_pShaderManager s3 \<noteq> None"
      "m_objectMaterials s3 = m_objectMaterials s2"
    using p2 w2 by (simp add: SetupSceneLights_def well_formed_def)
  have "PrepareScene stbi_load u1 u2 u3 u4 (s, g) = Inr (LoadMeshes s3, g1)"
    by (simp add: PrepareScene_def l(1) s3(1) [unfolded s2_def])
  moreover have "ready (LoadMeshes s3)"
    using s3(2,3) by (simp add: ready_def LoadMeshes_def well_formed_def)
  moreover have "material_tags (LoadMeshes s3) = material_tags s @ [''clay'', ''wood'', ''glass'', []]"
    using t2 s3(4) by (simp add: LoadMeshes_def material_tags_def)
  ultimately show ?thesis by blast
qed

theorem RenderScene_fixed_order_witness:
  "\<exists>s g s8 ups. PrepareScene (\<lambda>_. Some rgb) junk junk junk junk (scene0, gl0) = Inr (s, g)
     \<and> well_formed s \<and> m_pShaderManager s \<noteq> None
     \<and> RenderScene junk s = Inr s8
     \<and> length (m_basicMeshes s8) = length (m_basicMeshes s) + 36
     \<and> s8 = emit ups (drop (length (m_basicMeshes s)) (m_basicMeshes s8)) s
     \<and> RenderScene junk s8
         = Inr (emit ups (drop (length (m_basicMeshes s)) (m_basicMeshes s8)) s8)"
proof -
  have "m_loadedTextures scene0 + 11 \<le> int (length (m_textureIDs scene0))"
    and "m_pShaderManager scene0 \<noteq> None"
    by (simp_all add: scene0_facts) (simp add: scene0_def)
  then obtain s g where p: "PrepareScene (\<lambda>_. Some rgb) junk junk junk junk (scene0, gl0) = Inr (s, g)"
      "ready s"
    using PrepareScene_ready [OF scene0_facts(4), of "\<lambda>_. Some rgb" junk junk junk junk gl0]
    by blast
  then obtain sh where w: "well_formed s" "m_pShaderManager s = Some sh"
    by (auto simp: ready_def)
  show ?thesis
    using RenderScene_fixed_order [OF w, of junk] p(1) w by blast
qed

end
